theory Spec2Isabelle
  imports Complex_Main
begin

section \<open>Python values\<close>

text \<open>
  The values a caller can pass to the creation methods of \<open>Schematic\<close>: \<open>None\<close>,
  booleans, integers, floats and strings (the hashable primitives; every argument is used
  as a dictionary key by the methods, so an unhashable value never gets past the first
  statement). A float is modelled by the real number it denotes (NaN and the infinities
  are left out); the code only tests the sign and the truth value of a number. Strings
  are byte strings.
\<close>

datatype prim = PNone | PBool bool | PInt int | PFloat real | PStr string

text \<open>
  The values stored in attribute dictionaries and in the intermediate representation:
  primitives, dReal \<open>Variable\<close> objects (identified by their name), tuples, lists and
  string-keyed dictionaries.
\<close>

datatype pyval =
    Prim prim
  | Variable string
  | Tuple "pyval list"
  | PList "pyval list"
  | PDict "(string \<times> pyval) list"

text \<open>
  One constructor per \<open>raise\<close> statement (or failing built-in operation) of
  \<open>pymanifold.py\<close>; \<open>exn_class\<close> gives the Python exception class.
\<close>

datatype error =
    Param_must_be_a_string
  | Param_must_be_int_or_float
  | Param_must_be_ge_0
  | In_string_requires_string
  | Valid_channel_kinds_are
  | Channel_already_exists
  | Kind_must_be_either
  | Must_provide_a_unique_name
  | Join_expected_str
  | Unsupported_operand_plus
  | No_attribute_lower
  | Schematic_input_has_no_output string
  | Schematic_has_no_input
  | Key_error string
  | No_attribute_items
  | List_index_out_of_range
  | Collaborator string

datatype exn = TypeError | ValueError | KeyError | AttributeError | IndexError | Other

fun exn_class :: "error \<Rightarrow> exn" where
  "exn_class Param_must_be_a_string = TypeError"
| "exn_class Param_must_be_int_or_float = TypeError"
| "exn_class Param_must_be_ge_0 = ValueError"
| "exn_class In_string_requires_string = TypeError"
| "exn_class Valid_channel_kinds_are = ValueError"
| "exn_class Channel_already_exists = ValueError"
| "exn_class Kind_must_be_either = ValueError"
| "exn_class Must_provide_a_unique_name = ValueError"
| "exn_class Join_expected_str = TypeError"
| "exn_class Unsupported_operand_plus = TypeError"
| "exn_class No_attribute_lower = AttributeError"
| "exn_class (Schematic_input_has_no_output n) = ValueError"
| "exn_class Schematic_has_no_input = ValueError"
| "exn_class (Key_error k) = KeyError"
| "exn_class No_attribute_items = AttributeError"
| "exn_class List_index_out_of_range = IndexError"
| "exn_class (Collaborator m) = Other"

subsection \<open>Truth value, type tests, comparison with zero, equality\<close>

text \<open>\<open>not param\<close> is \<open>\<not> truthy param\<close>.\<close>

fun truthy :: "prim \<Rightarrow> bool" where
  "truthy PNone = False"
| "truthy (PBool b) = b"
| "truthy (PInt i) = (i \<noteq> 0)"
| "truthy (PFloat r) = (r \<noteq> 0)"
| "truthy (PStr s) = (s \<noteq> [])"

fun isinstance_str :: "prim \<Rightarrow> bool" where
  "isinstance_str (PStr s) = True"
| "isinstance_str _ = False"

text \<open>\<open>bool\<close> is a subclass of \<open>int\<close>.\<close>

fun isinstance_int :: "prim \<Rightarrow> bool" where
  "isinstance_int (PInt i) = True"
| "isinstance_int (PBool b) = True"
| "isinstance_int _ = False"

fun isinstance_float :: "prim \<Rightarrow> bool" where
  "isinstance_float (PFloat r) = True"
| "isinstance_float _ = False"

text \<open>The number a numeric value denotes; \<open>None\<close> for \<open>None\<close> and strings.\<close>

fun num_of :: "prim \<Rightarrow> real option" where
  "num_of (PBool b) = Some (if b then 1 else 0)"
| "num_of (PInt i) = Some (of_int i)"
| "num_of (PFloat r) = Some r"
| "num_of PNone = None"
| "num_of (PStr s) = None"

text \<open>
  \<open>param < 0\<close> and \<open>param > 0\<close>: \<open>None\<close> is the \<open>TypeError\<close> that comparing a
  string or \<open>None\<close> with an integer raises.
\<close>

definition lt_zero :: "prim \<Rightarrow> bool option" where
  "lt_zero p = (case num_of p of None \<Rightarrow> None | Some r \<Rightarrow> Some (r < 0))"

definition gt_zero :: "prim \<Rightarrow> bool option" where
  "gt_zero p = (case num_of p of None \<Rightarrow> None | Some r \<Rightarrow> Some (r > 0))"

text \<open>
  \<open>==\<close> on primitives, which with the hash decides when two dictionary keys are the
  same key: \<open>True == 1 == 1.0\<close> and \<open>False == 0 == 0.0\<close>.
\<close>

fun py_eq :: "prim \<Rightarrow> prim \<Rightarrow> bool" where
  "py_eq (PStr s) b = (b = PStr s)"
| "py_eq PNone b = (b = PNone)"
| "py_eq a b = (case (num_of a, num_of b) of (Some x, Some y) \<Rightarrow> x = y | _ \<Rightarrow> False)"

subsection \<open>Strings\<close>

definition lower_char :: "char \<Rightarrow> char" where
  "lower_char c =
     (case map_of (zip ''ABCDEFGHIJKLMNOPQRSTUVWXYZ'' ''abcdefghijklmnopqrstuvwxyz'') c of
        Some d \<Rightarrow> d
      | None \<Rightarrow> c)"

text \<open>\<open>s.lower()\<close> on an ASCII string.\<close>

definition lower :: "string \<Rightarrow> string" where
  "lower s = map lower_char s"

fun startswith :: "string \<Rightarrow> string \<Rightarrow> bool" where
  "startswith t [] = True"
| "startswith [] (c # s) = False"
| "startswith (d # t) (c # s) = (c = d \<and> startswith t s)"

text \<open>\<open>s in t\<close> for two strings: \<open>s\<close> occurs in \<open>t\<close> as a contiguous piece.\<close>

fun str_in :: "string \<Rightarrow> string \<Rightarrow> bool" where
  "str_in s [] = (s = [])"
| "str_in s (c # t) = (startswith (c # t) s \<or> str_in s t)"

text \<open>\<open>'_'.join(xs)\<close>.\<close>

fun join_underscore :: "string list \<Rightarrow> string" where
  "join_underscore [] = []"
| "join_underscore [x] = x"
| "join_underscore (x # y # ys) = x @ ''_'' @ join_underscore (y # ys)"

subsection \<open>Dictionaries\<close>

text \<open>
  A dictionary is the list of its items in insertion order. Storing under a key that is
  present replaces the value in place (the key object first inserted stays); storing
  under a new key appends.
\<close>

fun dict_set :: "('k \<times> 'v) list \<Rightarrow> 'k \<Rightarrow> 'v \<Rightarrow> ('k \<times> 'v) list" where
  "dict_set [] k v = [(k, v)]"
| "dict_set ((k', v') # d) k v = (if k' = k then (k', v) # d else (k', v') # dict_set d k v)"

definition dict_get :: "('k \<times> 'v) list \<Rightarrow> 'k \<Rightarrow> 'v option" where
  "dict_get d k = map_of d k"

text \<open>The same with Python's equality on primitive keys.\<close>

fun pdict_set :: "(prim \<times> 'v) list \<Rightarrow> prim \<Rightarrow> 'v \<Rightarrow> (prim \<times> 'v) list" where
  "pdict_set [] k v = [(k, v)]"
| "pdict_set ((k', v') # d) k v = (if py_eq k' k then (k', v) # d else (k', v') # pdict_set d k v)"

text \<open>A dictionary display \<open>{k1: v1, k2: v2, ...}\<close> stores its items from left to right.\<close>

definition dict_display :: "(prim \<times> 'v) list \<Rightarrow> (prim \<times> 'v) list" where
  "dict_display items = foldl (\<lambda>d (k, v). pdict_set d k v) [] items"

section \<open>Parameter validation\<close>

text \<open>
  \<open>Schematic.validate_params(params, component, name)\<close>. The dictionary \<open>params\<close> maps
  each supplied value to its declared kind; \<open>component\<close> and \<open>name\<close> only occur in
  the messages. The result is the exception raised, or \<open>None\<close> when the method returns.
\<close>

fun validate_params :: "(prim \<times> string) list \<Rightarrow> error option" where
  "validate_params [] = None"
| "validate_params ((param, value) # params) =
     (if \<not> truthy param then validate_params params
      else if value = ''string'' then
        (if \<not> isinstance_str param then Some Param_must_be_a_string
         else validate_params params)
      else if value = ''number'' then
        (if \<not> isinstance_int param \<and> \<not> isinstance_float param then Some Param_must_be_int_or_float
         else validate_params params)
      else if value = ''negative number'' then
        (case gt_zero param of
           None \<Rightarrow> Some Param_must_be_int_or_float
         | Some True \<Rightarrow> Some Param_must_be_ge_0
         | Some False \<Rightarrow> validate_params params)
      else if value = ''positive number'' then
        (case lt_zero param of
           None \<Rightarrow> Some Param_must_be_int_or_float
         | Some True \<Rightarrow> Some Param_must_be_ge_0
         | Some False \<Rightarrow> validate_params params)
      else validate_params params)"

section \<open>The directed graph\<close>

text \<open>
  The part of a NetworkX \<open>DiGraph\<close> the program uses. The graph keeps, in insertion order,
  one entry per node: the node's attribute dictionary and its successors, each with the
  attribute dictionary of the edge. Node names are strings: every method that adds a
  node first concatenates its name with a string, which raises for any other value.
\<close>

type_synonym attrs = "(string \<times> pyval) list"

type_synonym graph = "(string \<times> attrs \<times> (string \<times> attrs) list) list"

text \<open>\<open>name in dg.nodes\<close>.\<close>

definition in_nodes :: "graph \<Rightarrow> string \<Rightarrow> bool" where
  "in_nodes g n = (dict_get g n \<noteq> None)"

text \<open>\<open>(u, v) in dg.edges\<close>.\<close>

definition in_edges :: "graph \<Rightarrow> string \<Rightarrow> string \<Rightarrow> bool" where
  "in_edges g u v = (case dict_get g u of None \<Rightarrow> False | Some (a, row) \<Rightarrow> dict_get row v \<noteq> None)"

text \<open>\<open>dg.add_node(n)\<close> with no attributes: a new node gets empty dictionaries.\<close>

definition add_node :: "graph \<Rightarrow> string \<Rightarrow> graph" where
  "add_node g n = (if in_nodes g n then g else g @ [(n, [], [])])"

text \<open>
  \<open>dg.add_edge(u, v)\<close> with no attributes: both endpoints are added as nodes when they
  are missing, \<open>u\<close> first; an edge that is present keeps its attributes.
\<close>

fun row_add :: "graph \<Rightarrow> string \<Rightarrow> string \<Rightarrow> graph" where
  "row_add [] u v = []"
| "row_add ((n, a, row) # g) u v =
     (if n = u then (n, a, (if dict_get row v = None then row @ [(v, [])] else row)) # g
      else (n, a, row) # row_add g u v)"

definition add_edge :: "graph \<Rightarrow> string \<Rightarrow> string \<Rightarrow> graph" where
  "add_edge g u v = row_add (add_node (add_node g u) v) u v"

text \<open>\<open>dg.nodes[n][key] = attr\<close> for a node that is present.\<close>

fun node_setitem :: "graph \<Rightarrow> string \<Rightarrow> string \<Rightarrow> pyval \<Rightarrow> graph" where
  "node_setitem [] n key attr = []"
| "node_setitem ((m, a, row) # g) n key attr =
     (if m = n then (m, dict_set a key attr, row) # g else (m, a, row) # node_setitem g n key attr)"

fun row_setitem :: "(string \<times> attrs) list \<Rightarrow> string \<Rightarrow> string \<Rightarrow> pyval \<Rightarrow> (string \<times> attrs) list" where
  "row_setitem [] v key attr = []"
| "row_setitem ((w, d) # row) v key attr =
     (if w = v then (w, dict_set d key attr) # row else (w, d) # row_setitem row v key attr)"

text \<open>\<open>dg.edges[u, v][key] = attr\<close> for an edge that is present.\<close>

fun edge_setitem :: "graph \<Rightarrow> string \<Rightarrow> string \<Rightarrow> string \<Rightarrow> pyval \<Rightarrow> graph" where
  "edge_setitem [] u v key attr = []"
| "edge_setitem ((m, a, row) # g) u v key attr =
     (if m = u then (m, a, row_setitem row v key attr) # g else (m, a, row) # edge_setitem g u v key attr)"

text \<open>The attribute dictionaries \<open>dg.nodes[n]\<close> and \<open>dg.edges[u, v]\<close>.\<close>

definition node_attrs :: "graph \<Rightarrow> string \<Rightarrow> attrs option" where
  "node_attrs g n = (case dict_get g n of None \<Rightarrow> None | Some (a, row) \<Rightarrow> Some a)"

definition edge_attrs :: "graph \<Rightarrow> string \<Rightarrow> string \<Rightarrow> attrs option" where
  "edge_attrs g u v = (case dict_get g u of None \<Rightarrow> None | Some (a, row) \<Rightarrow> dict_get row v)"

section \<open>The schematic\<close>

text \<open>
  The fluid properties that \<open>Fluid(fluid_name)\<close> reads from \<open>constants.py\<close> and that
  \<open>port\<close> stores.
\<close>

record fluid =
  min_density :: pyval
  min_viscosity :: pyval
  analyte_diffusivities :: pyval
  analyte_initial_concentrations :: pyval
  analyte_radii :: pyval
  analyte_charges :: pyval

text \<open>
  The state of a \<open>Schematic\<close> object. The expressions of the solver's language are an
  abstract type \<open>'e\<close>. \<open>translation_strats\<close> is \<open>dir(translate)\<close>, the list of names
  that the module \<open>translate\<close> defines; the module is not part of the source at hand, so
  the constructor takes the list as an argument.
\<close>

record 'e schematic =
  exprs :: "'e list"
  dim :: "prim list"
  translation_strats :: "string list"
  dg :: graph

definition Schematic :: "string list \<Rightarrow> prim list \<Rightarrow> 'e schematic" where
  "Schematic dir_translate d =
     \<lparr>exprs = [], dim = d, translation_strats = dir_translate, dg = []\<rparr>"

text \<open>
  A method returns the exception it raised, if any, and the state of the object
  afterwards.
\<close>

type_synonym 'e outcome = "error option \<times> 'e schematic"

subsection \<open>Channels\<close>

text \<open>
  \<open>Schematic.channel\<close>. \<open>valid_kinds = ("rectangle")\<close> is a string (a parenthesised
  expression, not a tuple), so \<open>kind not in valid_kinds\<close> is a test on strings: it
  raises \<open>TypeError\<close> when \<open>kind\<close> is not a string and tests for a contiguous piece
  otherwise.
\<close>

definition channel_attributes ::
  "string \<Rightarrow> string \<Rightarrow> string \<Rightarrow> prim \<Rightarrow> prim \<Rightarrow> prim \<Rightarrow> prim \<Rightarrow> string \<Rightarrow> prim \<Rightarrow> attrs" where
  "channel_attributes port_from port_to kind min_length min_width min_height min_resolution phase
      min_sampling_rate =
     [(''kind'', Prim (PStr kind)),
      (''length'', Variable (join_underscore [port_from, port_to, ''length''])),
      (''min_length'', Prim min_length),
      (''width'', Variable (join_underscore [port_from, port_to, ''width''])),
      (''min_width'', Prim min_width),
      (''height'', Variable (join_underscore [port_from, port_to, ''height''])),
      (''min_height'', Prim min_height),
      (''resolution'', Variable (join_underscore [port_from, port_to, ''resolution''])),
      (''min_resolution'', Prim min_resolution),
      (''flow_rate'', Variable (join_underscore [port_from, port_to, ''flow_rate''])),
      (''droplet_volume'', Variable (join_underscore [port_from, port_to, ''droplet_volume''])),
      (''viscosity'', Variable (join_underscore [port_from, port_to, ''viscosity''])),
      (''resistance'', Variable (join_underscore [port_from, port_to, ''resistance''])),
      (''phase'', Prim (PStr (lower phase))),
      (''port_from'', Prim (PStr port_from)),
      (''port_to'', Prim (PStr port_to)),
      (''x_detector'', Variable (join_underscore [port_from, port_to, ''x_detector''])),
      (''min_sampling_rate'', Prim min_sampling_rate)]"

definition channel ::
  "'e schematic \<Rightarrow> prim \<Rightarrow> prim \<Rightarrow> prim \<Rightarrow> prim \<Rightarrow> prim \<Rightarrow> prim \<Rightarrow> prim \<Rightarrow> prim \<Rightarrow> prim \<Rightarrow> 'e outcome" where
  "channel self port_from port_to min_length min_width min_height min_resolution kind phase
      min_sampling_rate =
     (let valid_kinds = ''rectangle'';
          user_provided_params = dict_display
            [(port_from, ''string''),
             (port_to, ''string''),
             (min_length, ''positive number''),
             (min_width, ''positive number''),
             (min_height, ''positive number''),
             (min_resolution, ''positive number''),
             (kind, ''string''),
             (phase, ''string''),
             (min_sampling_rate, ''positive number'')]
      in case kind of
        PStr kind0 \<Rightarrow>
          if \<not> str_in kind0 valid_kinds then (Some Valid_channel_kinds_are, self)
          else
            let kind1 = (if kind0 = ''rectangle'' then ''channel'' else kind0) in
            (case validate_params user_provided_params of
               Some e \<Rightarrow> (Some e, self)
             | None \<Rightarrow>
                 if (case (port_from, port_to) of
                       (PStr u, PStr v) \<Rightarrow> in_edges (dg self) u v
                     | _ \<Rightarrow> False)
                 then (Some Channel_already_exists, self)
                 else if ''translate_'' @ lower kind1 \<notin> set (translation_strats self)
                 then (Some Kind_must_be_either, self)
                 else
                   (case (port_from, port_to) of
                      (PStr u, PStr v) \<Rightarrow>
                        (case phase of
                           PStr phase0 \<Rightarrow>
                             let attributes = channel_attributes u v kind1 min_length min_width
                                   min_height min_resolution phase0 min_sampling_rate;
                                 attributes = (if \<not> truthy min_width
                                   then dict_set attributes ''min_width'' (Prim min_width)
                                   else attributes);
                                 attributes = (if \<not> truthy min_length
                                   then dict_set attributes ''min_length'' (Prim min_length)
                                   else attributes);
                                 attributes = (if \<not> truthy min_height
                                   then dict_set attributes ''min_height'' (Prim min_height)
                                   else attributes);
                                 g = add_edge (dg self) u v
                             in (None, self\<lparr>dg := foldl (\<lambda>g (key, attr). edge_setitem g u v key attr)
                                                     g attributes\<rparr>)
                         | _ \<Rightarrow> (Some No_attribute_lower, self))
                    | _ \<Rightarrow> (Some Join_expected_str, self)))
      | _ \<Rightarrow> (Some In_string_requires_string, self))"

subsection \<open>Ports\<close>

text \<open>
  \<open>Schematic.port\<close>. \<open>Fluid\<close> is the constructor of the class \<open>Fluid\<close>, which looks
  the fluid up in \<open>constants.py\<close> (not part of the source at hand): it is an argument
  here, and it may raise.
\<close>

definition port_attributes ::
  "string \<Rightarrow> string \<Rightarrow> prim \<Rightarrow> prim \<Rightarrow> prim \<Rightarrow> prim \<Rightarrow> fluid \<Rightarrow> attrs" where
  "port_attributes name kind min_pressure min_flow_rate x y fluid_properties =
     [(''kind'', Prim (PStr (lower kind))),
      (''viscosity'', Variable (name @ ''_viscosity'')),
      (''min_viscosity'', min_viscosity fluid_properties),
      (''pressure'', Variable (name @ ''_pressure'')),
      (''min_pressure'', Prim min_pressure),
      (''flow_rate'', Variable (name @ ''_flow_rate'')),
      (''min_flow_rate'', Prim min_flow_rate),
      (''density'', Variable (name @ ''_density'')),
      (''min_density'', min_density fluid_properties),
      (''x'', Variable (name @ ''_x'')),
      (''y'', Variable (name @ ''_y'')),
      (''min_x'', Prim x),
      (''min_y'', Prim y),
      (''analyte_diffusivities'', analyte_diffusivities fluid_properties),
      (''analyte_initial_concentrations'', analyte_initial_concentrations fluid_properties),
      (''analyte_radii'', analyte_radii fluid_properties),
      (''analyte_charges'', analyte_charges fluid_properties)]"

definition port ::
  "(prim \<Rightarrow> error + fluid) \<Rightarrow> 'e schematic \<Rightarrow> prim \<Rightarrow> prim \<Rightarrow> prim \<Rightarrow> prim \<Rightarrow> prim \<Rightarrow> prim \<Rightarrow> prim
     \<Rightarrow> 'e outcome" where
  "port Fluid self name kind min_pressure min_flow_rate x y fluid_name =
     (let user_provided_params = dict_display
            [(name, ''string''),
             (min_pressure, ''positive number''),
             (min_flow_rate, ''positive number''),
             (x, ''positive number''),
             (y, ''positive number''),
             (kind, ''string''),
             (fluid_name, ''string'')]
      in case validate_params user_provided_params of
        Some e \<Rightarrow> (Some e, self)
      | None \<Rightarrow>
          if (case name of PStr name0 \<Rightarrow> in_nodes (dg self) name0 | _ \<Rightarrow> False)
          then (Some Must_provide_a_unique_name, self)
          else
            (case kind of
               PStr kind0 \<Rightarrow>
                 if ''translate_'' @ lower kind0 \<notin> set (translation_strats self)
                 then (Some Kind_must_be_either, self)
                 else
                   (case Fluid fluid_name of
                      Inl e \<Rightarrow> (Some e, self)
                    | Inr fluid_properties \<Rightarrow>
                        (case name of
                           PStr name0 \<Rightarrow>
                             let attributes = port_attributes name0 kind0 min_pressure
                                   min_flow_rate x y fluid_properties;
                                 attributes = (if \<not> truthy x
                                   then dict_set attributes ''min_x'' (Prim x) else attributes);
                                 attributes = (if \<not> truthy y
                                   then dict_set attributes ''min_y'' (Prim y) else attributes);
                                 attributes = (if \<not> truthy min_flow_rate
                                   then dict_set attributes ''min_flow_rate'' (Prim min_flow_rate)
                                   else attributes);
                                 attributes = (if \<not> truthy min_pressure
                                   then dict_set attributes ''min_pressure'' (Prim min_pressure)
                                   else attributes);
                                 g = add_node (dg self) name0
                             in (None, self\<lparr>dg := foldl (\<lambda>g (key, attr). node_setitem g name0 key attr)
                                                     g attributes\<rparr>)
                         | _ \<Rightarrow> (Some Unsupported_operand_plus, self)))
             | _ \<Rightarrow> (Some No_attribute_lower, self)))"

subsection \<open>Nodes\<close>

text \<open>\<open>Schematic.node\<close>.\<close>

definition node_attributes :: "string \<Rightarrow> string \<Rightarrow> prim \<Rightarrow> prim \<Rightarrow> prim \<Rightarrow> attrs" where
  "node_attributes name kind c p qf =
     [(''kind'', Prim (PStr (lower kind))),
      (''pressure'', Variable (name @ ''_pressure'')),
      (''min_pressure'', Prim PNone),
      (''flow_rate'', Variable (name @ ''_flow_rate'')),
      (''min_flow_rate'', Prim PNone),
      (''viscosity'', Variable (name @ ''_viscosity'')),
      (''min_viscosity'', Prim PNone),
      (''density'', Variable (name @ ''_density'')),
      (''min_density'', Prim PNone),
      (''x'', Variable (name @ ''_x'')),
      (''min_x'', Prim PNone),
      (''y'', Variable (name @ ''_y'')),
      (''min_y'', Prim PNone),
      (''c'', Prim c),
      (''p'', Prim p),
      (''qf'', Prim qf)]"

definition node ::
  "'e schematic \<Rightarrow> prim \<Rightarrow> prim \<Rightarrow> prim \<Rightarrow> prim \<Rightarrow> prim \<Rightarrow> prim \<Rightarrow> prim \<Rightarrow> 'e outcome" where
  "node self name x y kind c p qf =
     (let user_provided_params = dict_display
            [(name, ''string''),
             (x, ''positive number''),
             (y, ''positive number''),
             (kind, ''string''),
             (c, ''positive number''),
             (p, ''positive number''),
             (qf, ''positive number'')]
      in case validate_params user_provided_params of
        Some e \<Rightarrow> (Some e, self)
      | None \<Rightarrow>
          if (case name of PStr name0 \<Rightarrow> in_nodes (dg self) name0 | _ \<Rightarrow> False)
          then (Some Must_provide_a_unique_name, self)
          else
            (case kind of
               PStr kind0 \<Rightarrow>
                 if ''translate_'' @ lower kind0 \<notin> set (translation_strats self)
                 then (Some Kind_must_be_either, self)
                 else
                   (case name of
                      PStr name0 \<Rightarrow>
                        let attributes = node_attributes name0 kind0 c p qf;
                            attributes = (if truthy x
                              then dict_set attributes ''min_x'' (Prim x) else attributes);
                            attributes = (if truthy y
                              then dict_set attributes ''min_y'' (Prim y) else attributes);
                            g = add_node (dg self) name0
                        in (None, self\<lparr>dg := foldl (\<lambda>g (key, attr). node_setitem g name0 key attr)
                                                g attributes\<rparr>)
                    | _ \<Rightarrow> (Some Unsupported_operand_plus, self))
             | _ \<Rightarrow> (Some No_attribute_lower, self)))"

section \<open>Translation and solving\<close>

text \<open>
  What the solver returns for a satisfiable formula: a dReal \<open>Box\<close>, the list of its
  items, each a variable (by name) with the bounds of its interval.
\<close>

type_synonym box = "(string \<times> real \<times> real) list"

text \<open>
  The collaborators that are not part of the source at hand: the rules
  \<open>translate.translate_input(dg, name)\<close> and \<open>translate.translate_chip(dg, name, dim)\<close>
  of the module \<open>translate\<close>, which read the graph and return a list of expressions or
  raise, and dReal's \<open>logical_and(*exprs)\<close> and \<open>CheckSatisfiability(formula, delta)\<close>.
  \<open>'e\<close> is the type of expressions and \<open>'f\<close> the type of formulas.
\<close>

record ('e, 'f) collaborators =
  translate_input :: "graph \<Rightarrow> string \<Rightarrow> error + 'e list"
  translate_chip :: "graph \<Rightarrow> string \<Rightarrow> prim list \<Rightarrow> error + 'e list"
  logical_and :: "'e list \<Rightarrow> 'f"
  CheckSatisfiability :: "'f \<Rightarrow> real \<Rightarrow> box option"

text \<open>
  The inner loop of \<open>translate_schematic\<close>, over \<open>dg.nodes(data=True)\<close>: it reads
  \<open>y['kind']\<close> of every node and does not stop at the first output.
\<close>

fun has_output_loop :: "graph \<Rightarrow> bool \<Rightarrow> error + bool" where
  "has_output_loop [] has_output = Inr has_output"
| "has_output_loop ((x, y, row) # g) has_output =
     (case dict_get y ''kind'' of
        None \<Rightarrow> Inl (Key_error ''kind'')
      | Some kind \<Rightarrow>
          has_output_loop g (if kind = Prim (PStr ''output'') then True else has_output))"

text \<open>
  The first loop of \<open>translate_schematic\<close>, over the names in \<open>dg.nodes\<close>. It returns
  \<open>has_input\<close> (or the exception) and the list \<open>self.exprs\<close> as it then is.
\<close>

fun input_loop ::
  "('e, 'f) collaborators \<Rightarrow> graph \<Rightarrow> string list \<Rightarrow> bool \<Rightarrow> 'e list \<Rightarrow> (error + bool) \<times> 'e list" where
  "input_loop tr g [] has_input es = (Inr has_input, es)"
| "input_loop tr g (name # names) has_input es =
     (case node_attrs g name of
        None \<Rightarrow> (Inl (Key_error name), es)
      | Some a \<Rightarrow>
          (case dict_get a ''kind'' of
             None \<Rightarrow> (Inl (Key_error ''kind''), es)
           | Some kind \<Rightarrow>
               if kind = Prim (PStr ''input'') then
                 (case has_output_loop g False of
                    Inl e \<Rightarrow> (Inl e, es)
                  | Inr has_output \<Rightarrow>
                      if has_output then
                        (case translate_input tr g name of
                           Inl e \<Rightarrow> (Inl e, es)
                         | Inr vals \<Rightarrow> input_loop tr g names True (es @ vals))
                      else (Inl (Schematic_input_has_no_output name), es))
               else input_loop tr g names has_input es))"

text \<open>The second loop, which appends the chip-area constraints of every node.\<close>

fun chip_loop ::
  "('e, 'f) collaborators \<Rightarrow> graph \<Rightarrow> prim list \<Rightarrow> string list \<Rightarrow> 'e list \<Rightarrow> error option \<times> 'e list" where
  "chip_loop tr g d [] es = (None, es)"
| "chip_loop tr g d (name # names) es =
     (case translate_chip tr g name d of
        Inl e \<Rightarrow> (Some e, es)
      | Inr vals \<Rightarrow> chip_loop tr g d names (es @ vals))"

definition translate_schematic :: "('e, 'f) collaborators \<Rightarrow> 'e schematic \<Rightarrow> 'e outcome" where
  "translate_schematic tr self =
     (case input_loop tr (dg self) (map fst (dg self)) False (exprs self) of
        (Inl e, es) \<Rightarrow> (Some e, self\<lparr>exprs := es\<rparr>)
      | (Inr has_input, es) \<Rightarrow>
          if \<not> has_input then (Some Schematic_has_no_input, self\<lparr>exprs := es\<rparr>)
          else
            (case chip_loop tr (dg self) (dim self) (map fst (dg self)) es of
               (r, es') \<Rightarrow> (r, self\<lparr>exprs := es'\<rparr>)))"

text \<open>
  What \<open>invoke_backend\<close> and \<open>solve\<close> return: the solver's \<open>Box\<close>, or a string.
\<close>

datatype solve_result = Model box | Str string

text \<open>
  \<open>Schematic.invoke_backend\<close> (the flag \<open>_show\<close> only prints). \<open>if model:\<close> tests
  the truth value of what the solver returned: \<open>None\<close> is false, and so is a \<open>Box\<close>
  without items, a \<open>Box\<close> being a sized container.
\<close>

definition invoke_backend :: "('e, 'f) collaborators \<Rightarrow> 'e schematic \<Rightarrow> solve_result" where
  "invoke_backend tr self =
     (let formula = logical_and tr (exprs self) in
      case CheckSatisfiability tr formula 10 of
        None \<Rightarrow> Str ''No solution found''
      | Some model \<Rightarrow> if model \<noteq> [] then Model model else Str ''No solution found'')"

definition solve ::
  "('e, 'f) collaborators \<Rightarrow> 'e schematic \<Rightarrow> (error + solve_result) \<times> 'e schematic" where
  "solve tr self =
     (case translate_schematic tr self of
        (Some e, self') \<Rightarrow> (Inl e, self')
      | (None, self') \<Rightarrow> (Inr (invoke_backend tr self'), self'))"

section \<open>The intermediate representation\<close>

text \<open>\<open>s.split("_")\<close> and \<open>str(idx)\<close> for an index.\<close>

fun split_underscore :: "string \<Rightarrow> string list" where
  "split_underscore [] = [[]]"
| "split_underscore (c # s) =
     (if c = CHR ''_'' then [] # split_underscore s
      else (case split_underscore s of
              [] \<Rightarrow> [[c]]
            | w # ws \<Rightarrow> (c # w) # ws))"

fun str_nat :: "nat \<Rightarrow> string" where
  "str_nat n =
     (if n < 10 then [''0123456789'' ! n]
      else str_nat (n div 10) @ [''0123456789'' ! (n mod 10)])"

declare str_nat.simps [simp del]

text \<open>
  \<open>nx.readwrite.json_graph.node_link_data(dg)\<close>: under \<open>nodes\<close> one dictionary per
  node, its attributes and then its name under \<open>id\<close>; under \<open>links\<close> one dictionary per
  edge, its attributes and then its endpoints under \<open>source\<close> and \<open>target\<close>. The edges
  come in the order of their first endpoint in the graph. The other three keys hold
  values that are not lists.
\<close>

definition node_link_data_nodes :: "graph \<Rightarrow> attrs list" where
  "node_link_data_nodes g = map (\<lambda>(n, a, row). dict_set a ''id'' (Prim (PStr n))) g"

definition node_link_data_links :: "graph \<Rightarrow> attrs list" where
  "node_link_data_links g =
     concat (map (\<lambda>(u, a, row).
       map (\<lambda>(v, d). dict_set (dict_set d ''source'' (Prim (PStr u))) ''target'' (Prim (PStr v))) row) g)"

definition node_link_data_rest :: attrs where
  "node_link_data_rest =
     [(''directed'', Prim (PBool True)), (''multigraph'', Prim (PBool False)), (''graph'', PDict [])]"

fun map_err :: "('a \<Rightarrow> error + 'b) \<Rightarrow> 'a list \<Rightarrow> error + 'b list" where
  "map_err f [] = Inr []"
| "map_err f (x # xs) =
     (case f x of
        Inl e \<Rightarrow> Inl e
      | Inr y \<Rightarrow> (case map_err f xs of Inl e \<Rightarrow> Inl e | Inr ys \<Rightarrow> Inr (y # ys)))"

text \<open>
  The body of the loop over \<open>nx_json["links"]\<close> in \<open>to_json\<close>, for one solved variable:
  \<open>attr_split[1]\<close> is only read when the source matches, and raises when the name has
  no underscore.
\<close>

definition project_link :: "string list \<Rightarrow> pyval \<Rightarrow> attrs \<Rightarrow> error + attrs" where
  "project_link attr_split value link_attribute_dict =
     (case attr_split of
        [] \<Rightarrow> Inl List_index_out_of_range
      | s0 # rest \<Rightarrow>
          if dict_get link_attribute_dict ''source'' = Some (Prim (PStr s0)) then
            (case rest of
               [] \<Rightarrow> Inl List_index_out_of_range
             | s1 # rest' \<Rightarrow>
                 if dict_get link_attribute_dict ''target'' = Some (Prim (PStr s1))
                 then Inr (dict_set link_attribute_dict (join_underscore rest') value)
                 else Inr link_attribute_dict)
          else Inr link_attribute_dict)"

text \<open>The body of the loop over \<open>nx_json["nodes"]\<close>.\<close>

definition project_node :: "string list \<Rightarrow> pyval \<Rightarrow> attrs \<Rightarrow> error + attrs" where
  "project_node attr_split value node_attribute_dict =
     (case attr_split of
        [] \<Rightarrow> Inl List_index_out_of_range
      | s0 # rest \<Rightarrow>
          if dict_get node_attribute_dict ''id'' = Some (Prim (PStr s0))
          then Inr (dict_set node_attribute_dict (join_underscore rest) value)
          else Inr node_attribute_dict)"

text \<open>The loop over \<open>dreal_output.items()\<close>; it returns the links and the nodes.\<close>

fun project :: "(string \<times> pyval) list \<Rightarrow> attrs list \<Rightarrow> attrs list \<Rightarrow> error + attrs list \<times> attrs list" where
  "project [] links nds = Inr (links, nds)"
| "project ((attribute, value) # dreal_output) links nds =
     (let attr_split = split_underscore attribute in
      case map_err (project_link attr_split value) links of
        Inl e \<Rightarrow> Inl e
      | Inr links' \<Rightarrow>
          (case map_err (project_node attr_split value) nds of
             Inl e \<Rightarrow> Inl e
           | Inr nds' \<Rightarrow> project dreal_output links' nds'))"

record connection =
  conn_from :: pyval
  conn_to :: pyval
  conn_attributes :: attrs

record node_entry =
  node_type :: pyval
  portAttrs :: pyval
  entry_attributes :: attrs

record type_entry =
  signalType :: pyval
  type_attributes :: attrs

record manifold_ir =
  ir_name :: string
  userDefinedTypes :: attrs
  portTypes :: "(string \<times> type_entry) list"
  nodeTypes :: "(string \<times> type_entry) list"
  constraintTypes :: attrs
  nodes :: "(string \<times> node_entry) list"
  connections :: "(string \<times> connection) list"
  constraints :: attrs

fun isinstance_Variable :: "pyval \<Rightarrow> bool" where
  "isinstance_Variable (Variable v) = True"
| "isinstance_Variable _ = False"

text \<open>The attributes copied into a connection and into a node entry.\<close>

definition connection_attributes :: "attrs \<Rightarrow> attrs" where
  "connection_attributes link_attribute_dict =
     foldl (\<lambda>d (key, value).
        if key \<notin> set [''port_from'', ''port_to'', ''source'', ''target''] \<and> \<not> isinstance_Variable value
        then dict_set d key value else d) [] link_attribute_dict"

definition node_entry_attributes :: "attrs \<Rightarrow> attrs" where
  "node_entry_attributes node_attribute_dict =
     foldl (\<lambda>d (key, value). if isinstance_Variable value then d else dict_set d key value)
       [] node_attribute_dict"

text \<open>
  The loop over \<open>enumerate(nx_json["links"])\<close>, and the entry it stores for one link.
\<close>

definition connection_of :: "attrs \<Rightarrow> error + connection" where
  "connection_of link_attribute_dict =
     (case dict_get link_attribute_dict ''source'' of
        None \<Rightarrow> Inl (Key_error ''source'')
      | Some source \<Rightarrow>
          (case dict_get link_attribute_dict ''target'' of
             None \<Rightarrow> Inl (Key_error ''target'')
           | Some target \<Rightarrow>
               Inr \<lparr>conn_from = source, conn_to = target,
                    conn_attributes = connection_attributes link_attribute_dict\<rparr>))"

fun connections_loop ::
  "nat \<Rightarrow> attrs list \<Rightarrow> (string \<times> connection) list \<Rightarrow> error + (string \<times> connection) list" where
  "connections_loop idx [] conns = Inr conns"
| "connections_loop idx (link_attribute_dict # links) conns =
     (case connection_of link_attribute_dict of
        Inl e \<Rightarrow> Inl e
      | Inr c \<Rightarrow> connections_loop (Suc idx) links (dict_set conns (''ch'' @ str_nat idx) c))"

text \<open>
  The loop over \<open>enumerate(nx_json["nodes"])\<close>: the entry it stores for one node
  under \<open>nodes\<close>, and where else it registers the node.
\<close>

definition node_entry_of :: "attrs \<Rightarrow> error + node_entry" where
  "node_entry_of node_attribute_dict =
     (case dict_get node_attribute_dict ''kind'' of
        None \<Rightarrow> Inl (Key_error ''kind'')
      | Some node_kind \<Rightarrow>
          (case dict_get node_attribute_dict ''id'' of
             None \<Rightarrow> Inl (Key_error ''id'')
           | Some node_name \<Rightarrow>
               Inr \<lparr>node_type = node_kind, portAttrs = node_name,
                    entry_attributes = node_entry_attributes node_attribute_dict\<rparr>))"

definition register_node :: "string \<Rightarrow> node_entry \<Rightarrow> manifold_ir \<Rightarrow> manifold_ir" where
  "register_node node_id e ir =
     (let ir1 = ir\<lparr>nodes := dict_set (nodes ir) node_id e\<rparr>;
          t = \<lparr>signalType = node_type e, type_attributes = entry_attributes e\<rparr>
      in if node_type e \<in> set [Prim (PStr ''input''), Prim (PStr ''output'')]
         then ir1\<lparr>portTypes := dict_set (portTypes ir1) node_id t\<rparr>
         else ir1\<lparr>nodeTypes := dict_set (nodeTypes ir1) node_id t\<rparr>)"

fun nodes_loop :: "nat \<Rightarrow> attrs list \<Rightarrow> manifold_ir \<Rightarrow> error + manifold_ir" where
  "nodes_loop idx [] ir = Inr ir"
| "nodes_loop idx (node_attribute_dict # nds) ir =
     (case node_entry_of node_attribute_dict of
        Inl e \<Rightarrow> Inl e
      | Inr entry \<Rightarrow> nodes_loop (Suc idx) nds (register_node (''pT'' @ str_nat idx) entry ir))"

text \<open>
  The part of \<open>Schematic.to_json\<close> that follows the call of \<open>solve\<close>, for a result
  that has items: from the graph and the solver's box to the dictionary \<open>manifold_ir\<close>,
  or to the exception raised on the way.
\<close>

definition manifold_ir_of :: "graph \<Rightarrow> box \<Rightarrow> error + manifold_ir" where
  "manifold_ir_of g output =
     (let nx_nodes = node_link_data_nodes g;
          nx_links = node_link_data_links g;
          dreal_output =
            map (\<lambda>(name, lb, ub). (name, Tuple [Prim (PFloat lb), Prim (PFloat ub)])) output
      in case project dreal_output nx_links nx_nodes of
           Inl e \<Rightarrow> Inl e
         | Inr (links, nds) \<Rightarrow>
             (case connections_loop 0 links [] of
                Inl e \<Rightarrow> Inl e
              | Inr conns \<Rightarrow>
                  nodes_loop 0 nds
                    \<lparr>ir_name = ''Json Data'', userDefinedTypes = [], portTypes = [],
                     nodeTypes = [], constraintTypes = [], nodes = [],
                     connections = conns, constraints = node_link_data_rest\<rparr>))"

text \<open>
  \<open>Schematic.to_json\<close>. The graph is read before \<open>solve\<close> is called. The result is
  the exception raised, or the dictionary \<open>manifold_ir\<close> that is written to the file at
  \<open>path\<close>; nothing is written when an exception is raised, the file being opened in
  the last statement. A string has no method \<open>items\<close>.
\<close>

definition to_json ::
  "('e, 'f) collaborators \<Rightarrow> 'e schematic \<Rightarrow> (error + manifold_ir) \<times> 'e schematic" where
  "to_json tr self =
     (let g = dg self
      in case solve tr self of
           (Inl e, self') \<Rightarrow> (Inl e, self')
         | (Inr (Str s), self') \<Rightarrow> (Inl No_attribute_items, self')
         | (Inr (Model output), self') \<Rightarrow> (manifold_ir_of g output, self'))"

section \<open>Notions used to state the properties\<close>

text \<open>
  What one run of \<open>translate_schematic\<close> appends to \<open>self.exprs\<close> for a graph and a chip
  area, with the exception it ends in, if any: the run on an empty list.
\<close>

definition translation ::
  "('e, 'f) collaborators \<Rightarrow> graph \<Rightarrow> prim list \<Rightarrow> error option \<times> 'e list" where
  "translation tr g d =
     (case input_loop tr g (map fst g) False [] of
        (Inl e, es) \<Rightarrow> (Some e, es)
      | (Inr has_input, es) \<Rightarrow>
          if \<not> has_input then (Some Schematic_has_no_input, es)
          else chip_loop tr g d (map fst g) es)"

text \<open>
  Reachability along channels, in the words of the specification: the nodes that a walk
  of at most \<open>k\<close> channels reaches from one of \<open>ns\<close>, and whether a node of kind
  \<open>output\<close> is among those reached from \<open>n\<close> (a walk need not be longer than the number
  of nodes).
\<close>

definition successors :: "graph \<Rightarrow> string \<Rightarrow> string list" where
  "successors g n = (case dict_get g n of None \<Rightarrow> [] | Some (a, row) \<Rightarrow> map fst row)"

fun reachable_within :: "graph \<Rightarrow> nat \<Rightarrow> string list \<Rightarrow> string list" where
  "reachable_within g 0 ns = ns"
| "reachable_within g (Suc k) ns =
     reachable_within g k (remdups (ns @ concat (map (successors g) ns)))"

definition output_reachable :: "graph \<Rightarrow> string \<Rightarrow> bool" where
  "output_reachable g n =
     list_ex (\<lambda>m. case node_attrs g m of
                     None \<Rightarrow> False
                   | Some a \<Rightarrow> dict_get a ''kind'' = Some (Prim (PStr ''output'')))
       (reachable_within g (length g) [n])"

text \<open>The channels of a graph, in the order of \<open>dg.edges\<close>.\<close>

definition edges_of :: "graph \<Rightarrow> (string \<times> string \<times> attrs) list" where
  "edges_of g = concat (map (\<lambda>(u, a, row). map (\<lambda>(w, d). (u, w, d)) row) g)"

text \<open>
  The key of node \<open>n\<close>, and the key of the channel from \<open>u\<close> to \<open>w\<close>, that the name
  \<open>v\<close> of a solved variable addresses when \<open>to_json\<close> splits it at the underscores.
\<close>

definition node_target :: "string \<Rightarrow> string \<Rightarrow> string option" where
  "node_target v n =
     (case split_underscore v of
        [] \<Rightarrow> None
      | s0 # rest \<Rightarrow> if s0 = n then Some (join_underscore rest) else None)"

definition link_target :: "string \<Rightarrow> string \<Rightarrow> string \<Rightarrow> string option" where
  "link_target v u w =
     (case split_underscore v of
        s0 # s1 # rest \<Rightarrow> if s0 = u \<and> s1 = w then Some (join_underscore rest) else None
      | _ \<Rightarrow> None)"

text \<open>A static attribute: a key that holds a value other than a \<open>Variable\<close>.\<close>

definition is_static :: "attrs \<Rightarrow> string \<Rightarrow> bool" where
  "is_static d k = (case dict_get d k of None \<Rightarrow> False | Some val \<Rightarrow> \<not> isinstance_Variable val)"

text \<open>
  No variable of the box addresses a static attribute of a node or of a channel, nor the
  key \<open>kind\<close> of a node, nor the keys \<open>id\<close>, \<open>source\<close> and \<open>target\<close> that
  \<open>node_link_data\<close> adds.
\<close>

definition no_static_addressed :: "graph \<Rightarrow> box \<Rightarrow> bool" where
  "no_static_addressed g b =
     (\<forall>(v, lb, ub) \<in> set b.
        (\<forall>(n, a, row) \<in> set g.
           case node_target v n of
             None \<Rightarrow> True
           | Some k \<Rightarrow> k \<notin> set [''id'', ''kind''] \<and> \<not> is_static a k) \<and>
        (\<forall>(u, w, d) \<in> set (edges_of g).
           case link_target v u w of
             None \<Rightarrow> True
           | Some k \<Rightarrow> k \<notin> set [''source'', ''target''] \<and> \<not> is_static d k))"

text \<open>The attribute dictionaries of a graph are dictionaries: no key occurs twice.\<close>

definition wf_dicts :: "graph \<Rightarrow> bool" where
  "wf_dicts g =
     (\<forall>(n, a, row) \<in> set g. distinct (map fst a) \<and> (\<forall>(w, d) \<in> set row. distinct (map fst d)))"

text \<open>A value is the pair of bounds of an interval of the box, lower bound first.\<close>

definition interval_of :: "box \<Rightarrow> pyval \<Rightarrow> bool" where
  "interval_of b val =
     (\<exists>(v, lb, ub) \<in> set b. val = Tuple [Prim (PFloat lb), Prim (PFloat ub)] \<and> lb \<le> ub)"

text \<open>
  What the claims say of the entry \<open>c\<close> under \<open>connections\<close> for the channel from \<open>u\<close>
  to \<open>w\<close> with attributes \<open>d\<close>: it carries the two names; every static attribute of
  the channel (the four keys that the code leaves out aside) is in it unchanged; and
  every value in it is an attribute of the channel or a pair of bounds, never a variable.
\<close>

definition connection_ok :: "box \<Rightarrow> string \<times> string \<times> attrs \<Rightarrow> connection \<Rightarrow> bool" where
  "connection_ok b e c =
     (case e of (u, w, d) \<Rightarrow>
        conn_from c = Prim (PStr u) \<and> conn_to c = Prim (PStr w) \<and>
        (\<forall>(k, val) \<in> set d.
           \<not> isinstance_Variable val \<and> k \<notin> set [''port_from'', ''port_to'', ''source'', ''target'']
           \<longrightarrow> dict_get (conn_attributes c) k = Some val) \<and>
        (\<forall>(k, val) \<in> set (conn_attributes c).
           \<not> isinstance_Variable val \<and> ((k, val) \<in> set d \<or> interval_of b val)))"

text \<open>
  The same for the entry \<open>e\<close> stored under the id \<open>node_id\<close> for the node \<open>n\<close> with
  attributes \<open>a\<close>: it carries the name and the kind, it is registered under \<open>portTypes\<close>
  alone when the kind is \<open>input\<close> or \<open>output\<close> and under \<open>nodeTypes\<close> alone
  otherwise, with the same attributes, and its attributes are as for a connection.
\<close>

definition node_ok ::
  "box \<Rightarrow> string \<times> attrs \<times> (string \<times> attrs) list \<Rightarrow> string \<Rightarrow> manifold_ir \<Rightarrow> node_entry \<Rightarrow> bool" where
  "node_ok b nd node_id ir e =
     (case nd of (n, a, row) \<Rightarrow>
        portAttrs e = Prim (PStr n) \<and> dict_get a ''kind'' = Some (node_type e) \<and>
        (if node_type e \<in> set [Prim (PStr ''input''), Prim (PStr ''output'')]
         then dict_get (portTypes ir) node_id =
                Some \<lparr>signalType = node_type e, type_attributes = entry_attributes e\<rparr> \<and>
              dict_get (nodeTypes ir) node_id = None
         else dict_get (nodeTypes ir) node_id =
                Some \<lparr>signalType = node_type e, type_attributes = entry_attributes e\<rparr> \<and>
              dict_get (portTypes ir) node_id = None) \<and>
        (\<forall>(k, val) \<in> set a.
           \<not> isinstance_Variable val \<and> k \<noteq> ''id'' \<longrightarrow> dict_get (entry_attributes e) k = Some val) \<and>
        (\<forall>(k, val) \<in> set (entry_attributes e).
           \<not> isinstance_Variable val \<and>
           ((k, val) \<in> set a \<or> (k, val) = (''id'', Prim (PStr n)) \<or> interval_of b val)))"

text \<open>
  What holds of the dictionary of a node, and of a link, of \<open>nx_json\<close> while \<open>to_json\<close>
  writes the intervals of the box into it.
\<close>

definition node_inv :: "box \<Rightarrow> string \<times> attrs \<times> (string \<times> attrs) list \<Rightarrow> attrs \<Rightarrow> bool" where
  "node_inv b nd cur =
     (case nd of (n, a, row) \<Rightarrow>
        dict_get cur ''id'' = Some (Prim (PStr n)) \<and>
        dict_get cur ''kind'' = dict_get a ''kind'' \<and>
        distinct (map fst cur) \<and>
        (\<forall>(k, val) \<in> set a.
           \<not> isinstance_Variable val \<and> k \<noteq> ''id'' \<longrightarrow> dict_get cur k = Some val) \<and>
        (\<forall>(k, val) \<in> set cur.
           (k, val) \<in> set a \<or> (k, val) = (''id'', Prim (PStr n)) \<or> interval_of b val))"

definition link_inv :: "box \<Rightarrow> string \<times> string \<times> attrs \<Rightarrow> attrs \<Rightarrow> bool" where
  "link_inv b e cur =
     (case e of (u, w, d) \<Rightarrow>
        dict_get cur ''source'' = Some (Prim (PStr u)) \<and>
        dict_get cur ''target'' = Some (Prim (PStr w)) \<and>
        distinct (map fst cur) \<and>
        (\<forall>(k, val) \<in> set d.
           \<not> isinstance_Variable val \<and> k \<notin> set [''source'', ''target''] \<longrightarrow>
           dict_get cur k = Some val) \<and>
        (\<forall>(k, val) \<in> set cur.
           (k, val) \<in> set d \<or> (k, val) = (''source'', Prim (PStr u)) \<or>
           (k, val) = (''target'', Prim (PStr w)) \<or> interval_of b val))"

text \<open>Reading one attribute of a node of the graph, and of an entry under \<open>nodes\<close>.\<close>

definition node_attribute :: "graph \<Rightarrow> string \<Rightarrow> string \<Rightarrow> pyval option" where
  "node_attribute g n k = (case node_attrs g n of None \<Rightarrow> None | Some a \<Rightarrow> dict_get a k)"

definition ir_node_attribute :: "error + manifold_ir \<Rightarrow> string \<Rightarrow> string \<Rightarrow> pyval option" where
  "ir_node_attribute r node_id k =
     (case r of
        Inl e \<Rightarrow> None
      | Inr ir \<Rightarrow>
          (case dict_get (nodes ir) node_id of
             None \<Rightarrow> None
           | Some e \<Rightarrow> dict_get (entry_attributes e) k))"

definition ir_node_name :: "error + manifold_ir \<Rightarrow> string \<Rightarrow> pyval option" where
  "ir_node_name r node_id =
     (case r of
        Inl e \<Rightarrow> None
      | Inr ir \<Rightarrow>
          (case dict_get (nodes ir) node_id of
             None \<Rightarrow> None
           | Some e \<Rightarrow> Some (portAttrs e)))"

section \<open>Example inputs\<close>

text \<open>
  The rules named in the comment of \<open>Schematic.__init__\<close>, with the chip rule that
  \<open>translate_schematic\<close> calls.
\<close>

definition example_strats :: "string list" where
  "example_strats =
     [''translate_channel'', ''translate_chip'', ''translate_input'', ''translate_node'',
      ''translate_output'', ''translate_tjunc'']"

definition example_Fluid :: "prim \<Rightarrow> error + fluid" where
  "example_Fluid fluid_name =
     Inr \<lparr>min_density = Prim (PFloat 999), min_viscosity = Prim (PFloat 0.001),
          analyte_diffusivities = PDict [], analyte_initial_concentrations = PDict [],
          analyte_radii = PDict [], analyte_charges = PDict []\<rparr>"

definition empty_schematic :: "string schematic" where
  "empty_schematic = Schematic example_strats [PInt 0, PInt 0, PInt 1, PInt 1]"

text \<open>A port, then a node, then a channel between them, each created on the result of the last.\<close>

definition example_port :: "string outcome" where
  "example_port = port example_Fluid empty_schematic (PStr ''P1'') (PStr ''input'') (PInt 100)
     (PBool False) (PBool False) (PBool False) (PStr ''default'')"

definition example_node :: "string outcome" where
  "example_node = node (snd example_port) (PStr ''N1'') (PBool False) (PBool False) (PStr ''node'')
     (PFloat 0.4) (PFloat 0.5) (PFloat 0.9)"

definition example_channel :: "string outcome" where
  "example_channel = channel (snd example_node) (PStr ''P1'') (PStr ''N1'') (PFloat 0.01)
     (PBool False) (PBool False) (PBool False) (PStr ''rectangle'') (PStr ''None'') (PInt 1)"

text \<open>
  A channel whose \<open>min_length\<close> is the string \<open>'rectangle'\<close>, the value of \<open>kind\<close>.
\<close>

definition wrong_type_channel :: "string outcome" where
  "wrong_type_channel = channel empty_schematic (PStr ''a'') (PStr ''b'') (PStr ''rectangle'')
     (PBool False) (PBool False) (PBool False) (PStr ''rectangle'') (PStr ''None'') (PInt 1)"

text \<open>
  An input port \<open>a\<close> with a channel to the node \<open>n\<close>, where the circuit ends, and an
  output port \<open>b\<close> that no channel touches.
\<close>

definition unreachable_output :: "string schematic" where
  "unreachable_output =
     snd (channel
       (snd (node
         (snd (port example_Fluid
           (snd (port example_Fluid empty_schematic (PStr ''a'') (PStr ''input'') (PBool False)
                   (PBool False) (PBool False) (PBool False) (PStr ''default'')))
           (PStr ''b'') (PStr ''output'') (PBool False) (PBool False) (PBool False) (PBool False)
           (PStr ''default'')))
         (PStr ''n'') (PBool False) (PBool False) (PStr ''node'') (PFloat 0.4) (PFloat 0.5)
         (PFloat 0.9)))
       (PStr ''a'') (PStr ''n'') (PBool False) (PBool False) (PBool False) (PBool False)
       (PStr ''rectangle'') (PStr ''None'') (PInt 1))"

text \<open>
  Stand-ins for the collaborators: rules that return one expression, named after the rule
  and the node, a conjunction that is the set of its operands, and a solver that finds
  every formula unsatisfiable, or returns a fixed box.
\<close>

definition example_rules :: "box option \<Rightarrow> (string, string set) collaborators" where
  "example_rules answer =
     \<lparr>translate_input = (\<lambda>g name. Inr [''input_'' @ name]),
      translate_chip = (\<lambda>g name d. Inr [''chip_'' @ name]),
      logical_and = set,
      CheckSatisfiability = (\<lambda>formula delta. answer)\<rparr>"

text \<open>
  An input port \<open>A\<close>, an output port \<open>B\<close> and a node named \<open>min\<close>, with channels from
  \<open>A\<close> to \<open>min\<close> and from \<open>min\<close> to \<open>B\<close>; and two boxes, one with the pressure of \<open>A\<close>
  and the length of the first channel, one with the viscosity of the first channel.
\<close>

definition node_named_min :: "string schematic" where
  "node_named_min =
     snd (channel
       (snd (channel
         (snd (node
           (snd (port example_Fluid
             (snd (port example_Fluid empty_schematic (PStr ''A'') (PStr ''input'') (PInt 100)
                     (PBool False) (PBool False) (PBool False) (PStr ''default'')))
             (PStr ''B'') (PStr ''output'') (PBool False) (PBool False) (PBool False) (PBool False)
             (PStr ''default'')))
           (PStr ''min'') (PBool False) (PBool False) (PStr ''node'') (PFloat 0.4) (PFloat 0.5)
           (PFloat 0.9)))
         (PStr ''A'') (PStr ''min'') (PFloat 0.01) (PBool False) (PBool False) (PBool False)
         (PStr ''rectangle'') (PStr ''None'') (PInt 1)))
       (PStr ''min'') (PStr ''B'') (PBool False) (PBool False) (PBool False) (PBool False)
       (PStr ''rectangle'') (PStr ''None'') (PInt 1))"

definition pressure_and_length :: box where
  "pressure_and_length = [(''A_pressure'', 100, 101), (''A_min_length'', 0.01, 0.02)]"

definition channel_viscosity :: box where
  "channel_viscosity = [(''A_min_viscosity'', 0.002, 0.003)]"

section \<open>Properties of dictionaries and of the graph\<close>

lemma dict_get_dict_set: "dict_get (dict_set d k v) k' = (if k' = k then Some v else dict_get d k')"
  by (induction d) (auto simp: dict_get_def)

lemma dict_get_snoc:
  "dict_get (d @ [(k, v)]) k' =
     (case dict_get d k' of Some x \<Rightarrow> Some x | None \<Rightarrow> if k' = k then Some v else None)"
  by (auto simp: dict_get_def map_add_def split: option.splits)

lemma dict_set_fresh: "dict_get d k = None \<Longrightarrow> dict_set d k v = d @ [(k, v)]"
  by (induction d) (auto simp: dict_get_def split: if_splits)

lemma in_nodes_node_attrs: "in_nodes g n \<longleftrightarrow> node_attrs g n \<noteq> None"
  by (auto simp: in_nodes_def node_attrs_def split: option.splits)

lemma in_edges_edge_attrs: "in_edges g u v \<longleftrightarrow> edge_attrs g u v \<noteq> None"
  by (auto simp: in_edges_def edge_attrs_def split: option.splits)

lemma in_edges_in_nodes: "in_edges g u v \<Longrightarrow> in_nodes g u"
  by (auto simp: in_edges_def in_nodes_def split: option.splits)

lemma dict_get_add_node:
  "dict_get (add_node g n) m =
     (if m = n \<and> dict_get g n = None then Some ([], []) else dict_get g m)"
  by (auto simp: add_node_def in_nodes_def dict_get_def map_add_def split: option.splits)

lemma node_attrs_add_node:
  "node_attrs (add_node g n) m =
     (if m = n \<and> \<not> in_nodes g n then Some [] else node_attrs g m)"
  by (auto simp: node_attrs_def in_nodes_def dict_get_add_node)

lemma node_attrs_node_setitem:
  "node_attrs (node_setitem g n key attr) m =
     (if m = n then map_option (\<lambda>a. dict_set a key attr) (node_attrs g n) else node_attrs g m)"
  by (induction g) (auto simp: node_attrs_def dict_get_def)

lemma node_attrs_foldl_node_setitem:
  "node_attrs (foldl (\<lambda>g (key, attr). node_setitem g n key attr) g kvs) m =
     (if m = n then map_option (\<lambda>a. foldl (\<lambda>d (key, attr). dict_set d key attr) a kvs) (node_attrs g n)
      else node_attrs g m)"
proof (induction kvs arbitrary: g)
  case Nil
  show ?case by (simp add: option.map_ident)
next
  case (Cons kv kvs)
  show ?case
    by (cases kv) (simp add: Cons.IH node_attrs_node_setitem option.map_comp comp_def)
qed

lemma dict_get_row_setitem:
  "dict_get (row_setitem row v key attr) w =
     (if w = v then map_option (\<lambda>d. dict_set d key attr) (dict_get row v) else dict_get row w)"
  by (induction row) (auto simp: dict_get_def)

lemma dict_get_edge_setitem:
  "dict_get (edge_setitem g u v key attr) m =
     (if m = u then map_option (\<lambda>(a, row). (a, row_setitem row v key attr)) (dict_get g u)
      else dict_get g m)"
  by (induction g) (auto simp: dict_get_def)

lemma edge_attrs_edge_setitem:
  "edge_attrs (edge_setitem g u v key attr) u' v' =
     (if u' = u \<and> v' = v then map_option (\<lambda>d. dict_set d key attr) (edge_attrs g u v)
      else edge_attrs g u' v')"
  by (auto simp: edge_attrs_def dict_get_edge_setitem dict_get_row_setitem split: option.splits)

lemma edge_attrs_foldl_edge_setitem:
  "edge_attrs (foldl (\<lambda>g (key, attr). edge_setitem g u v key attr) g kvs) u' v' =
     (if u' = u \<and> v' = v
      then map_option (\<lambda>d. foldl (\<lambda>d (key, attr). dict_set d key attr) d kvs) (edge_attrs g u v)
      else edge_attrs g u' v')"
proof (induction kvs arbitrary: g)
  case Nil
  show ?case by (simp add: option.map_ident)
next
  case (Cons kv kvs)
  show ?case
    by (cases kv) (simp add: Cons.IH edge_attrs_edge_setitem option.map_comp comp_def)
qed

lemma node_attrs_edge_setitem: "node_attrs (edge_setitem g u v key attr) m = node_attrs g m"
  by (auto simp: node_attrs_def dict_get_edge_setitem split: option.splits)

lemma node_attrs_foldl_edge_setitem:
  "node_attrs (foldl (\<lambda>g (key, attr). edge_setitem g u v key attr) g kvs) m = node_attrs g m"
  by (induction kvs arbitrary: g) (auto simp: node_attrs_edge_setitem)

lemma dict_get_row_add:
  "dict_get (row_add g u v) m =
     (if m = u
      then map_option (\<lambda>(a, row). (a, if dict_get row v = None then row @ [(v, [])] else row))
             (dict_get g u)
      else dict_get g m)"
  by (induction g) (auto simp: dict_get_def)

lemma edge_attrs_add_edge:
  "\<not> in_edges g u v \<Longrightarrow> edge_attrs (add_edge g u v) u v = Some []"
  by (auto simp: add_edge_def in_edges_def edge_attrs_def dict_get_row_add dict_get_add_node
        dict_get_snoc split: option.splits if_splits) (auto simp: dict_get_def)

lemma node_attrs_add_edge:
  "node_attrs (add_edge g u v) m =
     (if (m = u \<or> m = v) \<and> \<not> in_nodes g m then Some [] else node_attrs g m)"
  by (auto simp: add_edge_def in_nodes_def node_attrs_def dict_get_row_add dict_get_add_node
        split: option.splits if_splits)

section \<open>What a creation method stores, and that a failure stores nothing\<close>

lemma port_attributes_stored:
  "foldl (\<lambda>d (key, attr). dict_set d key attr) []
     (port_attributes name kind min_pressure min_flow_rate x y fp) =
   port_attributes name kind min_pressure min_flow_rate x y fp"
  by (simp add: port_attributes_def)

lemma port_attributes_reset:
  "dict_set (port_attributes name kind min_pressure min_flow_rate x y fp) ''min_x'' (Prim x) =
     port_attributes name kind min_pressure min_flow_rate x y fp"
  "dict_set (port_attributes name kind min_pressure min_flow_rate x y fp) ''min_y'' (Prim y) =
     port_attributes name kind min_pressure min_flow_rate x y fp"
  "dict_set (port_attributes name kind min_pressure min_flow_rate x y fp) ''min_flow_rate''
     (Prim min_flow_rate) = port_attributes name kind min_pressure min_flow_rate x y fp"
  "dict_set (port_attributes name kind min_pressure min_flow_rate x y fp) ''min_pressure''
     (Prim min_pressure) = port_attributes name kind min_pressure min_flow_rate x y fp"
  by (simp_all add: port_attributes_def)

lemma port_success:
  assumes "port Fluid self name kind min_pressure min_flow_rate x y fluid_name = (None, self')"
  shows "\<exists>name0 kind0 fp.
           name = PStr name0 \<and> kind = PStr kind0 \<and> Fluid fluid_name = Inr fp \<and>
           \<not> in_nodes (dg self) name0 \<and>
           ''translate_'' @ lower kind0 \<in> set (translation_strats self) \<and>
           node_attrs (dg self') name0 =
             Some (port_attributes name0 kind0 min_pressure min_flow_rate x y fp)"
  using assms
  by (auto simp: port_def Let_def node_attrs_foldl_node_setitem node_attrs_add_node
        port_attributes_stored port_attributes_reset
        split: option.splits prim.splits sum.splits if_splits)

lemma port_failure:
  assumes "port Fluid self name kind min_pressure min_flow_rate x y fluid_name = (Some e, self')"
  shows "self' = self"
  using assms
  by (auto simp: port_def Let_def split: option.splits prim.splits sum.splits if_splits)

lemma node_attributes_stored:
  "foldl (\<lambda>d (key, attr). dict_set d key attr) []
     (if truthy y
      then dict_set (if truthy x then dict_set (node_attributes name kind c p qf) ''min_x'' (Prim x)
                     else node_attributes name kind c p qf) ''min_y'' (Prim y)
      else (if truthy x then dict_set (node_attributes name kind c p qf) ''min_x'' (Prim x)
            else node_attributes name kind c p qf)) =
   dict_set (dict_set (node_attributes name kind c p qf)
      ''min_x'' (if truthy x then Prim x else Prim PNone))
      ''min_y'' (if truthy y then Prim y else Prim PNone)"
  by (simp add: node_attributes_def)

lemma node_success:
  assumes "node self name x y kind c p qf = (None, self')"
  shows "\<exists>name0 kind0.
           name = PStr name0 \<and> kind = PStr kind0 \<and>
           \<not> in_nodes (dg self) name0 \<and>
           ''translate_'' @ lower kind0 \<in> set (translation_strats self) \<and>
           node_attrs (dg self') name0 =
             Some (dict_set (dict_set (node_attributes name0 kind0 c p qf)
                ''min_x'' (if truthy x then Prim x else Prim PNone))
                ''min_y'' (if truthy y then Prim y else Prim PNone))"
proof -
  from assms obtain name0 kind0 where eqs: "name = PStr name0" "kind = PStr kind0"
    and cond: "\<not> in_nodes (dg self) name0"
      "''translate_'' @ lower kind0 \<in> set (translation_strats self)"
    and self': "self' = self\<lparr>dg := foldl (\<lambda>g (key, attr). node_setitem g name0 key attr)
        (add_node (dg self) name0)
        (if truthy y
         then dict_set (if truthy x then dict_set (node_attributes name0 kind0 c p qf) ''min_x'' (Prim x)
                        else node_attributes name0 kind0 c p qf) ''min_y'' (Prim y)
         else (if truthy x then dict_set (node_attributes name0 kind0 c p qf) ''min_x'' (Prim x)
               else node_attributes name0 kind0 c p qf))\<rparr>"
    by (auto simp: node_def Let_def split: option.splits prim.splits if_splits)
  show ?thesis
    unfolding self' eqs using cond
    by (simp add: node_attrs_foldl_node_setitem node_attrs_add_node node_attributes_stored
          del: foldl.simps)
qed

lemma node_failure:
  assumes "node self name x y kind c p qf = (Some e, self')"
  shows "self' = self"
  using assms
  by (auto simp: node_def Let_def split: option.splits prim.splits if_splits)

lemma option_case_error:
  "(case v of None \<Rightarrow> X | Some e \<Rightarrow> (Some e, s)) = (if v = None then X else (v, s))"
  by (cases v) auto

lemma channel_attributes_stored:
  "foldl (\<lambda>d (key, attr). dict_set d key attr) []
     (channel_attributes u v kind min_length min_width min_height min_resolution phase msr) =
   channel_attributes u v kind min_length min_width min_height min_resolution phase msr"
  by (simp add: channel_attributes_def)

lemma channel_attributes_reset:
  "dict_set (channel_attributes u v kind min_length min_width min_height min_resolution phase msr)
     ''min_width'' (Prim min_width) =
   channel_attributes u v kind min_length min_width min_height min_resolution phase msr"
  "dict_set (channel_attributes u v kind min_length min_width min_height min_resolution phase msr)
     ''min_length'' (Prim min_length) =
   channel_attributes u v kind min_length min_width min_height min_resolution phase msr"
  "dict_set (channel_attributes u v kind min_length min_width min_height min_resolution phase msr)
     ''min_height'' (Prim min_height) =
   channel_attributes u v kind min_length min_width min_height min_resolution phase msr"
  by (simp_all add: channel_attributes_def)

text \<open>
  \<open>channel\<close> either raises and leaves the object as it was, or passes every check and
  stores the edge.
\<close>

lemma channel_cases:
  assumes "channel self port_from port_to min_length min_width min_height min_resolution kind phase
             msr = (r, self')"
  shows "(r \<noteq> None \<and> self' = self) \<or>
   (\<exists>u v kind0 phase0.
      port_from = PStr u \<and> port_to = PStr v \<and> kind = PStr kind0 \<and> phase = PStr phase0 \<and>
      str_in kind0 ''rectangle'' \<and> \<not> in_edges (dg self) u v \<and>
      ''translate_'' @ lower (if kind0 = ''rectangle'' then ''channel'' else kind0)
         \<in> set (translation_strats self) \<and>
      r = None \<and>
      self' = self\<lparr>dg := foldl (\<lambda>g (key, attr). edge_setitem g u v key attr) (add_edge (dg self) u v)
         (channel_attributes u v (if kind0 = ''rectangle'' then ''channel'' else kind0)
            min_length min_width min_height min_resolution phase0 msr)\<rparr>)"
proof (cases kind)
  case k: (PStr kind0)
  show ?thesis
  proof (cases port_from)
    case f: (PStr u)
    show ?thesis
    proof (cases port_to)
      case t: (PStr v)
      show ?thesis
      proof (cases phase)
        case ph: (PStr phase0)
        show ?thesis
          using assms unfolding channel_def Let_def k f t ph channel_attributes_reset if_cancel
            option_case_error
          by (auto split: if_splits simp del: foldl.simps str_in.simps not_None_eq)
      qed (use assms in \<open>auto simp: channel_def Let_def option_case_error k f t
             simp del: str_in.simps not_None_eq split: if_splits\<close>)
    qed (use assms in \<open>auto simp: channel_def Let_def option_case_error k f
           simp del: str_in.simps not_None_eq split: if_splits\<close>)
  qed (use assms in \<open>auto simp: channel_def Let_def option_case_error k
         simp del: str_in.simps not_None_eq split: if_splits\<close>)
qed (use assms in \<open>auto simp: channel_def Let_def\<close>)

lemma channel_success:
  assumes "channel self port_from port_to min_length min_width min_height min_resolution kind phase
             msr = (None, self')"
  shows "\<exists>u v kind0 phase0.
           port_from = PStr u \<and> port_to = PStr v \<and> kind = PStr kind0 \<and> phase = PStr phase0 \<and>
           str_in kind0 ''rectangle'' \<and> \<not> in_edges (dg self) u v \<and>
           ''translate_'' @ lower (if kind0 = ''rectangle'' then ''channel'' else kind0)
             \<in> set (translation_strats self) \<and>
           edge_attrs (dg self') u v =
             Some (channel_attributes u v (if kind0 = ''rectangle'' then ''channel'' else kind0)
                     min_length min_width min_height min_resolution phase0 msr) \<and>
           (\<forall>m. node_attrs (dg self') m =
                  (if (m = u \<or> m = v) \<and> \<not> in_nodes (dg self) m then Some []
                   else node_attrs (dg self) m))"
proof -
  from channel_cases [OF assms] obtain u v kind0 phase0 where
    eqs: "port_from = PStr u" "port_to = PStr v" "kind = PStr kind0" "phase = PStr phase0"
    and cond: "str_in kind0 ''rectangle''" "\<not> in_edges (dg self) u v"
      "''translate_'' @ lower (if kind0 = ''rectangle'' then ''channel'' else kind0)
         \<in> set (translation_strats self)"
    and self': "self' = self\<lparr>dg := foldl (\<lambda>g (key, attr). edge_setitem g u v key attr)
         (add_edge (dg self) u v)
         (channel_attributes u v (if kind0 = ''rectangle'' then ''channel'' else kind0)
            min_length min_width min_height min_resolution phase0 msr)\<rparr>"
    by auto
  have "edge_attrs (dg self') u v =
      Some (channel_attributes u v (if kind0 = ''rectangle'' then ''channel'' else kind0)
              min_length min_width min_height min_resolution phase0 msr)"
    unfolding self' using cond(2)
    by (simp add: edge_attrs_foldl_edge_setitem edge_attrs_add_edge channel_attributes_stored
          del: foldl.simps)
  moreover have "\<forall>m. node_attrs (dg self') m =
                  (if (m = u \<or> m = v) \<and> \<not> in_nodes (dg self) m then Some []
                   else node_attrs (dg self) m)"
    unfolding self' by (simp add: node_attrs_foldl_edge_setitem node_attrs_add_edge del: foldl.simps)
  ultimately show ?thesis using eqs cond by blast
qed

lemma channel_failure:
  assumes "channel self port_from port_to min_length min_width min_height min_resolution kind phase
             msr = (Some e, self')"
  shows "self' = self"
  using channel_cases [OF assms] by auto

lemma channel_duplicate:
  assumes "in_edges (dg self) u v"
  shows "\<exists>e. channel self (PStr u) (PStr v) min_length min_width min_height min_resolution kind
               phase msr = (Some e, self)"
  using channel_cases [of self "PStr u" "PStr v" min_length min_width min_height min_resolution kind
      phase msr "fst (channel self (PStr u) (PStr v) min_length min_width min_height min_resolution
        kind phase msr)" "snd (channel self (PStr u) (PStr v) min_length min_width min_height
        min_resolution kind phase msr)"] assms
  by (auto simp: prod_eq_iff)

lemma port_duplicate:
  assumes "in_nodes (dg self) n"
  shows "\<exists>e. port Fluid self (PStr n) kind min_pressure min_flow_rate x y fluid_name = (Some e, self)"
proof (cases "port Fluid self (PStr n) kind min_pressure min_flow_rate x y fluid_name")
  case (Pair r self')
  show ?thesis
  proof (cases r)
    case None
    with Pair port_success [of Fluid self "PStr n" kind min_pressure min_flow_rate x y fluid_name self']
      assms
    show ?thesis by auto
  next
    case (Some e)
    with Pair port_failure [of Fluid self "PStr n" kind min_pressure min_flow_rate x y fluid_name e self']
    show ?thesis by auto
  qed
qed

lemma node_duplicate:
  assumes "in_nodes (dg self) n"
  shows "\<exists>e. node self (PStr n) x y kind c p qf = (Some e, self)"
proof (cases "node self (PStr n) x y kind c p qf")
  case (Pair r self')
  show ?thesis
  proof (cases r)
    case None
    with Pair node_success [of self "PStr n" x y kind c p qf self'] assms
    show ?thesis by auto
  next
    case (Some e)
    with Pair node_failure [of self "PStr n" x y kind c p qf e self']
    show ?thesis by auto
  qed
qed

section \<open>The example inputs, evaluated\<close>

lemmas eval_defs = port_def node_def channel_def Let_def dict_display_def lt_zero_def gt_zero_def
  lower_def lower_char_def in_nodes_def in_edges_def dict_get_def add_node_def add_edge_def
  port_attributes_def node_attributes_def channel_attributes_def
  empty_schematic_def Schematic_def example_strats_def example_Fluid_def

lemma example_port_eval:
  "example_port = (None, empty_schematic\<lparr>dg :=
     [(''P1'', port_attributes ''P1'' ''input'' (PInt 100) (PBool False) (PBool False) (PBool False)
         \<lparr>min_density = Prim (PFloat 999), min_viscosity = Prim (PFloat 0.001),
          analyte_diffusivities = PDict [], analyte_initial_concentrations = PDict [],
          analyte_radii = PDict [], analyte_charges = PDict []\<rparr>, [])]\<rparr>)"
  by (simp add: example_port_def eval_defs)

lemma example_node_eval:
  "example_node = (None, empty_schematic\<lparr>dg :=
     [(''P1'', port_attributes ''P1'' ''input'' (PInt 100) (PBool False) (PBool False) (PBool False)
         \<lparr>min_density = Prim (PFloat 999), min_viscosity = Prim (PFloat 0.001),
          analyte_diffusivities = PDict [], analyte_initial_concentrations = PDict [],
          analyte_radii = PDict [], analyte_charges = PDict []\<rparr>, []),
      (''N1'', node_attributes ''N1'' ''node'' (PFloat 0.4) (PFloat 0.5) (PFloat 0.9), [])]\<rparr>)"
  by (simp add: example_node_def example_port_eval) (simp add: eval_defs)

lemma example_channel_eval:
  "example_channel = (None, empty_schematic\<lparr>dg :=
     [(''P1'', port_attributes ''P1'' ''input'' (PInt 100) (PBool False) (PBool False) (PBool False)
         \<lparr>min_density = Prim (PFloat 999), min_viscosity = Prim (PFloat 0.001),
          analyte_diffusivities = PDict [], analyte_initial_concentrations = PDict [],
          analyte_radii = PDict [], analyte_charges = PDict []\<rparr>,
        [(''N1'', channel_attributes ''P1'' ''N1'' ''channel'' (PFloat 0.01) (PBool False)
            (PBool False) (PBool False) ''None'' (PInt 1))]),
      (''N1'', node_attributes ''N1'' ''node'' (PFloat 0.4) (PFloat 0.5) (PFloat 0.9), [])]\<rparr>)"
  by (simp add: example_channel_def example_node_eval) (simp add: eval_defs)

section \<open>Names of the symbolic variables\<close>

lemma port_variable_names:
  assumes "port Fluid self name kind min_pressure min_flow_rate x y fluid_name = (None, self')"
  shows "\<exists>name0 a. name = PStr name0 \<and> node_attrs (dg self') name0 = Some a \<and>
           (\<forall>key \<in> set [''viscosity'', ''pressure'', ''flow_rate'', ''density'', ''x'', ''y''].
              dict_get a key = Some (Variable (name0 @ ''_'' @ key))) \<and>
           (\<forall>key vn. (key, Variable vn) \<in> set a \<longrightarrow>
              vn = name0 @ ''_'' @ key \<or>
              key \<in> set [''min_viscosity'', ''min_density'', ''analyte_diffusivities'',
                ''analyte_initial_concentrations'', ''analyte_radii'', ''analyte_charges''])"
proof -
  from port_success [OF assms] obtain name0 kind0 fp where
    "name = PStr name0"
    "node_attrs (dg self') name0 =
       Some (port_attributes name0 kind0 min_pressure min_flow_rate x y fp)"
    by blast
  then show ?thesis
    by (auto simp: port_attributes_def dict_get_def)
qed

lemma node_variable_names:
  assumes "node self name x y kind c p qf = (None, self')"
  shows "\<exists>name0 a. name = PStr name0 \<and> node_attrs (dg self') name0 = Some a \<and>
           (\<forall>key \<in> set [''pressure'', ''flow_rate'', ''viscosity'', ''density'', ''x'', ''y''].
              dict_get a key = Some (Variable (name0 @ ''_'' @ key))) \<and>
           (\<forall>key vn. (key, Variable vn) \<in> set a \<longrightarrow> vn = name0 @ ''_'' @ key)"
proof -
  from node_success [OF assms] obtain name0 kind0 where
    "name = PStr name0"
    "node_attrs (dg self') name0 =
       Some (dict_set (dict_set (node_attributes name0 kind0 c p qf)
                ''min_x'' (if truthy x then Prim x else Prim PNone))
                ''min_y'' (if truthy y then Prim y else Prim PNone))"
    by blast
  then show ?thesis
    by (auto simp: node_attributes_def dict_get_def split: if_splits)
qed

lemma channel_variable_names:
  assumes "channel self port_from port_to min_length min_width min_height min_resolution kind phase
             msr = (None, self')"
  shows "\<exists>u v a. port_from = PStr u \<and> port_to = PStr v \<and> edge_attrs (dg self') u v = Some a \<and>
           (\<forall>key \<in> set [''length'', ''width'', ''height'', ''resolution'', ''flow_rate'',
                ''droplet_volume'', ''viscosity'', ''resistance'', ''x_detector''].
              dict_get a key = Some (Variable (u @ ''_'' @ v @ ''_'' @ key))) \<and>
           (\<forall>key vn. (key, Variable vn) \<in> set a \<longrightarrow> vn = u @ ''_'' @ v @ ''_'' @ key)"
proof -
  from channel_success [OF assms] obtain u v kind1 phase0 where
    "port_from = PStr u" "port_to = PStr v"
    "edge_attrs (dg self') u v =
       Some (channel_attributes u v kind1 min_length min_width min_height min_resolution phase0 msr)"
    by blast
  then show ?thesis
    by (auto simp: channel_attributes_def dict_get_def)
qed

text \<open>
  Claim C6. Every symbolic variable that a successful \<open>port\<close>, \<open>node\<close> or \<open>channel\<close>
  call allocates for an attribute is named after its owner and the attribute: the
  variable under key \<open>k\<close> of the port or node \<open>n\<close> is \<open>n_k\<close>, and the variable under key
  \<open>k\<close> of the channel from \<open>u\<close> to \<open>v\<close> is \<open>u_v_k\<close>. The six variables of a port or node
  and the nine of a channel are listed; no other entry of the stored dictionary holds a
  variable, the values copied from the fluid properties of a port aside, which the method
  does not allocate.
\<close>

theorem variable_names_follow_convention:
  "(port Fluid self name kind min_pressure min_flow_rate x y fluid_name = (None, self') \<longrightarrow>
      (\<exists>name0 a. name = PStr name0 \<and> node_attrs (dg self') name0 = Some a \<and>
           (\<forall>key \<in> set [''viscosity'', ''pressure'', ''flow_rate'', ''density'', ''x'', ''y''].
              dict_get a key = Some (Variable (name0 @ ''_'' @ key))) \<and>
           (\<forall>key vn. (key, Variable vn) \<in> set a \<longrightarrow>
              vn = name0 @ ''_'' @ key \<or>
              key \<in> set [''min_viscosity'', ''min_density'', ''analyte_diffusivities'',
                ''analyte_initial_concentrations'', ''analyte_radii'', ''analyte_charges'']))) \<and>
   (node selfn namen xn yn kindn c p qf = (None, selfn') \<longrightarrow>
      (\<exists>name0 a. namen = PStr name0 \<and> node_attrs (dg selfn') name0 = Some a \<and>
           (\<forall>key \<in> set [''pressure'', ''flow_rate'', ''viscosity'', ''density'', ''x'', ''y''].
              dict_get a key = Some (Variable (name0 @ ''_'' @ key))) \<and>
           (\<forall>key vn. (key, Variable vn) \<in> set a \<longrightarrow> vn = name0 @ ''_'' @ key))) \<and>
   (channel selfc port_from port_to min_length min_width min_height min_resolution kindc phase
        msr = (None, selfc') \<longrightarrow>
      (\<exists>u v a. port_from = PStr u \<and> port_to = PStr v \<and> edge_attrs (dg selfc') u v = Some a \<and>
           (\<forall>key \<in> set [''length'', ''width'', ''height'', ''resolution'', ''flow_rate'',
                ''droplet_volume'', ''viscosity'', ''resistance'', ''x_detector''].
              dict_get a key = Some (Variable (u @ ''_'' @ v @ ''_'' @ key))) \<and>
           (\<forall>key vn. (key, Variable vn) \<in> set a \<longrightarrow> vn = u @ ''_'' @ v @ ''_'' @ key)))"
  by (intro conjI impI) (erule port_variable_names node_variable_names channel_variable_names)+

theorem variable_names_witness:
  "fst example_port = None \<and> fst example_node = None \<and> fst example_channel = None \<and>
   (\<exists>a. node_attrs (dg (snd example_port)) ''P1'' = Some a \<and>
        dict_get a ''pressure'' = Some (Variable ''P1_pressure'')) \<and>
   (\<exists>a. node_attrs (dg (snd example_node)) ''N1'' = Some a \<and>
        dict_get a ''flow_rate'' = Some (Variable ''N1_flow_rate'')) \<and>
   (\<exists>a. edge_attrs (dg (snd example_channel)) ''P1'' ''N1'' = Some a \<and>
        dict_get a ''length'' = Some (Variable ''P1_N1_length''))"
proof -
  have p: "port example_Fluid empty_schematic (PStr ''P1'') (PStr ''input'') (PInt 100)
     (PBool False) (PBool False) (PBool False) (PStr ''default'') = (None, snd example_port)"
    using example_port_eval unfolding example_port_def by simp
  have n: "node (snd example_port) (PStr ''N1'') (PBool False) (PBool False) (PStr ''node'')
     (PFloat 0.4) (PFloat 0.5) (PFloat 0.9) = (None, snd example_node)"
    using example_node_eval unfolding example_node_def by simp
  have c: "channel (snd example_node) (PStr ''P1'') (PStr ''N1'') (PFloat 0.01)
     (PBool False) (PBool False) (PBool False) (PStr ''rectangle'') (PStr ''None'') (PInt 1)
     = (None, snd example_channel)"
    using example_channel_eval unfolding example_channel_def by simp
  have f: "fst example_port = None \<and> fst example_node = None \<and> fst example_channel = None"
    by (simp add: example_port_eval example_node_eval example_channel_eval)
  from variable_names_follow_convention [where Fluid = example_Fluid and self = empty_schematic
      and name = "PStr ''P1''" and kind = "PStr ''input''" and min_pressure = "PInt 100"
      and min_flow_rate = "PBool False" and x = "PBool False" and y = "PBool False"
      and fluid_name = "PStr ''default''" and self' = "snd example_port"
      and selfn = "snd example_port" and namen = "PStr ''N1''" and xn = "PBool False"
      and yn = "PBool False" and kindn = "PStr ''node''" and c = "PFloat 0.4" and p = "PFloat 0.5"
      and qf = "PFloat 0.9" and selfn' = "snd example_node"
      and selfc = "snd example_node" and port_from = "PStr ''P1''" and port_to = "PStr ''N1''"
      and min_length = "PFloat 0.01" and min_width = "PBool False" and min_height = "PBool False"
      and min_resolution = "PBool False" and kindc = "PStr ''rectangle''" and phase = "PStr ''None''"
      and msr = "PInt 1" and selfc' = "snd example_channel"] p n c f
  show ?thesis by auto
qed


section \<open>Duplicates\<close>

text \<open>
  Claim C2. Creating a channel over an ordered pair that already has a channel raises,
  creating a port or a node under a name that a node of the graph already has raises, and in
  each case the object, with its graph, is what it was before the call.
\<close>

theorem duplicate_creation_fails_unchanged:
  "(in_edges (dg self) u v \<longrightarrow>
      (\<exists>e. channel self (PStr u) (PStr v) min_length min_width min_height min_resolution kindc
              phase msr = (Some e, self))) \<and>
   (in_nodes (dg self) n \<longrightarrow>
      (\<exists>e. port Fluid self (PStr n) kind min_pressure min_flow_rate x y fluid_name = (Some e, self)) \<and>
      (\<exists>e. node self (PStr n) xn yn kindn c p qf = (Some e, self)))"
  by (intro conjI impI) (erule channel_duplicate port_duplicate node_duplicate)+

lemma example_channel_graph:
  "in_edges (dg (snd example_channel)) ''P1'' ''N1'' \<and> in_nodes (dg (snd example_channel)) ''P1''"
  by (simp add: example_channel_eval in_edges_def in_nodes_def dict_get_def)

theorem duplicate_creation_witness:
  "in_edges (dg (snd example_channel)) ''P1'' ''N1'' \<and>
   in_nodes (dg (snd example_channel)) ''P1'' \<and>
   (\<exists>e. channel (snd example_channel) (PStr ''P1'') (PStr ''N1'') (PFloat 0.01) (PBool False)
           (PBool False) (PBool False) (PStr ''rectangle'') (PStr ''None'') (PInt 1)
         = (Some e, snd example_channel)) \<and>
   (\<exists>e. port example_Fluid (snd example_channel) (PStr ''P1'') (PStr ''output'') (PBool False)
           (PBool False) (PBool False) (PBool False) (PStr ''default'')
         = (Some e, snd example_channel)) \<and>
   (\<exists>e. node (snd example_channel) (PStr ''P1'') (PBool False) (PBool False) (PStr ''node'')
           (PFloat 0.4) (PFloat 0.5) (PFloat 0.9)
         = (Some e, snd example_channel))"
  using duplicate_creation_fails_unchanged [where self = "snd example_channel" and u = "''P1''"
      and v = "''N1''" and n = "''P1''" and min_length = "PFloat 0.01" and min_width = "PBool False"
      and min_height = "PBool False" and min_resolution = "PBool False"
      and kindc = "PStr ''rectangle''" and phase = "PStr ''None''" and msr = "PInt 1"
      and Fluid = example_Fluid and kind = "PStr ''output''" and min_pressure = "PBool False"
      and min_flow_rate = "PBool False" and x = "PBool False" and y = "PBool False"
      and fluid_name = "PStr ''default''" and xn = "PBool False" and yn = "PBool False"
      and kindn = "PStr ''node''" and c = "PFloat 0.4" and p = "PFloat 0.5" and qf = "PFloat 0.9"]
    example_channel_graph
  by simp

section \<open>The absent sentinel\<close>

lemma py_eq_False_falsy: "py_eq param (PBool False) \<Longrightarrow> \<not> truthy param"
  by (cases param) (auto split: if_splits)

lemma validate_params_skip:
  "\<not> truthy param \<Longrightarrow>
     validate_params (params @ (param, value) # params') = validate_params (params @ params')"
  by (induction params) (auto split: option.splits bool.splits)

lemma port_bounds_stored:
  assumes "port Fluid self name kind min_pressure min_flow_rate x y fluid_name = (None, self')"
  shows "\<exists>name0 a. name = PStr name0 \<and> node_attrs (dg self') name0 = Some a \<and>
           dict_get a ''min_pressure'' = Some (Prim min_pressure) \<and>
           dict_get a ''min_flow_rate'' = Some (Prim min_flow_rate) \<and>
           dict_get a ''min_x'' = Some (Prim x) \<and>
           dict_get a ''min_y'' = Some (Prim y)"
proof -
  from port_success [OF assms] obtain name0 kind0 fp where
    "name = PStr name0"
    "node_attrs (dg self') name0 =
       Some (port_attributes name0 kind0 min_pressure min_flow_rate x y fp)"
    by blast
  then show ?thesis
    by (auto simp: port_attributes_def dict_get_def)
qed

lemma channel_bounds_stored:
  assumes "channel self port_from port_to min_length min_width min_height min_resolution kind phase
             msr = (None, self')"
  shows "\<exists>u v a. port_from = PStr u \<and> port_to = PStr v \<and> edge_attrs (dg self') u v = Some a \<and>
           dict_get a ''min_length'' = Some (Prim min_length) \<and>
           dict_get a ''min_width'' = Some (Prim min_width) \<and>
           dict_get a ''min_height'' = Some (Prim min_height) \<and>
           dict_get a ''min_resolution'' = Some (Prim min_resolution)"
proof -
  from channel_success [OF assms] obtain u v kind1 phase0 where
    "port_from = PStr u" "port_to = PStr v"
    "edge_attrs (dg self') u v =
       Some (channel_attributes u v kind1 min_length min_width min_height min_resolution phase0 msr)"
    by blast
  then show ?thesis
    by (auto simp: channel_attributes_def dict_get_def)
qed

lemma node_bounds_stored:
  assumes "node self name x y kind c p qf = (None, self')"
  shows "\<exists>name0 a. name = PStr name0 \<and> node_attrs (dg self') name0 = Some a \<and>
           dict_get a ''min_x'' = Some (if truthy x then Prim x else Prim PNone) \<and>
           dict_get a ''min_y'' = Some (if truthy y then Prim y else Prim PNone)"
proof -
  from node_success [OF assms] obtain name0 kind0 where
    "name = PStr name0"
    "node_attrs (dg self') name0 =
       Some (dict_set (dict_set (node_attributes name0 kind0 c p qf)
                ''min_x'' (if truthy x then Prim x else Prim PNone))
                ''min_y'' (if truthy y then Prim y else Prim PNone))"
    by blast
  then show ?thesis
    by (auto simp: node_attributes_def dict_get_def split: if_splits)
qed

text \<open>
  Claim C4. An entry of the dictionary given to \<open>validate_params\<close> whose key is \<open>False\<close>
  (or a key equal to it, under which a \<open>False\<close> argument is filed) is skipped whatever
  its declared kind: validation gives what it gives without the entry, and alone the entry
  never raises. A bound passed as \<open>False\<close> is stored as \<open>False\<close> on the port or channel
  created, and as \<open>None\<close> on a node.
\<close>

theorem false_argument_skipped_and_stored:
  "(py_eq param (PBool False) \<longrightarrow>
      validate_params (params @ (param, declared) # params') = validate_params (params @ params')) \<and>
   validate_params [(PBool False, declared)] = None \<and>
   (port Fluid self name kind min_pressure min_flow_rate x y fluid_name = (None, self') \<longrightarrow>
      (\<exists>name0 a. name = PStr name0 \<and> node_attrs (dg self') name0 = Some a \<and>
         (min_pressure = PBool False \<longrightarrow> dict_get a ''min_pressure'' = Some (Prim (PBool False))) \<and>
         (min_flow_rate = PBool False \<longrightarrow> dict_get a ''min_flow_rate'' = Some (Prim (PBool False))) \<and>
         (x = PBool False \<longrightarrow> dict_get a ''min_x'' = Some (Prim (PBool False))) \<and>
         (y = PBool False \<longrightarrow> dict_get a ''min_y'' = Some (Prim (PBool False))))) \<and>
   (channel selfc port_from port_to min_length min_width min_height min_resolution kindc phase
        msr = (None, selfc') \<longrightarrow>
      (\<exists>u v a. port_from = PStr u \<and> port_to = PStr v \<and> edge_attrs (dg selfc') u v = Some a \<and>
         (min_length = PBool False \<longrightarrow> dict_get a ''min_length'' = Some (Prim (PBool False))) \<and>
         (min_width = PBool False \<longrightarrow> dict_get a ''min_width'' = Some (Prim (PBool False))) \<and>
         (min_height = PBool False \<longrightarrow> dict_get a ''min_height'' = Some (Prim (PBool False))) \<and>
         (min_resolution = PBool False \<longrightarrow>
            dict_get a ''min_resolution'' = Some (Prim (PBool False))))) \<and>
   (node selfn namen xn yn kindn c p qf = (None, selfn') \<longrightarrow>
      (\<exists>name0 a. namen = PStr name0 \<and> node_attrs (dg selfn') name0 = Some a \<and>
         (xn = PBool False \<longrightarrow> dict_get a ''min_x'' = Some (Prim PNone)) \<and>
         (yn = PBool False \<longrightarrow> dict_get a ''min_y'' = Some (Prim PNone))))"
proof (intro conjI impI)
  assume "py_eq param (PBool False)"
  then show "validate_params (params @ (param, declared) # params') = validate_params (params @ params')"
    by (intro validate_params_skip py_eq_False_falsy)
next
  show "validate_params [(PBool False, declared)] = None" by simp
next
  assume "port Fluid self name kind min_pressure min_flow_rate x y fluid_name = (None, self')"
  from port_bounds_stored [OF this]
  show "\<exists>name0 a. name = PStr name0 \<and> node_attrs (dg self') name0 = Some a \<and>
         (min_pressure = PBool False \<longrightarrow> dict_get a ''min_pressure'' = Some (Prim (PBool False))) \<and>
         (min_flow_rate = PBool False \<longrightarrow> dict_get a ''min_flow_rate'' = Some (Prim (PBool False))) \<and>
         (x = PBool False \<longrightarrow> dict_get a ''min_x'' = Some (Prim (PBool False))) \<and>
         (y = PBool False \<longrightarrow> dict_get a ''min_y'' = Some (Prim (PBool False)))"
    by auto
next
  assume "channel selfc port_from port_to min_length min_width min_height min_resolution kindc phase
        msr = (None, selfc')"
  from channel_bounds_stored [OF this]
  show "\<exists>u v a. port_from = PStr u \<and> port_to = PStr v \<and> edge_attrs (dg selfc') u v = Some a \<and>
         (min_length = PBool False \<longrightarrow> dict_get a ''min_length'' = Some (Prim (PBool False))) \<and>
         (min_width = PBool False \<longrightarrow> dict_get a ''min_width'' = Some (Prim (PBool False))) \<and>
         (min_height = PBool False \<longrightarrow> dict_get a ''min_height'' = Some (Prim (PBool False))) \<and>
         (min_resolution = PBool False \<longrightarrow>
            dict_get a ''min_resolution'' = Some (Prim (PBool False)))"
    by auto
next
  assume "node selfn namen xn yn kindn c p qf = (None, selfn')"
  from node_bounds_stored [OF this]
  show "\<exists>name0 a. namen = PStr name0 \<and> node_attrs (dg selfn') name0 = Some a \<and>
         (xn = PBool False \<longrightarrow> dict_get a ''min_x'' = Some (Prim PNone)) \<and>
         (yn = PBool False \<longrightarrow> dict_get a ''min_y'' = Some (Prim PNone))"
    by auto
qed

theorem false_argument_witness:
  "py_eq (PInt 0) (PBool False) \<and>
   validate_params ([(PStr ''P1'', ''string'')] @ (PInt 0, ''string'') # [(PInt (- 1), ''positive number'')])
     = validate_params ([(PStr ''P1'', ''string'')] @ [(PInt (- 1), ''positive number'')]) \<and>
   fst example_port = None \<and> fst example_node = None \<and> fst example_channel = None \<and>
   (\<exists>a. node_attrs (dg (snd example_port)) ''P1'' = Some a \<and>
        dict_get a ''min_flow_rate'' = Some (Prim (PBool False)) \<and>
        dict_get a ''min_x'' = Some (Prim (PBool False))) \<and>
   (\<exists>a. edge_attrs (dg (snd example_channel)) ''P1'' ''N1'' = Some a \<and>
        dict_get a ''min_width'' = Some (Prim (PBool False))) \<and>
   (\<exists>a. node_attrs (dg (snd example_node)) ''N1'' = Some a \<and>
        dict_get a ''min_x'' = Some (Prim PNone))"
proof -
  have p: "port example_Fluid empty_schematic (PStr ''P1'') (PStr ''input'') (PInt 100)
     (PBool False) (PBool False) (PBool False) (PStr ''default'') = (None, snd example_port)"
    using example_port_eval unfolding example_port_def by simp
  have n: "node (snd example_port) (PStr ''N1'') (PBool False) (PBool False) (PStr ''node'')
     (PFloat 0.4) (PFloat 0.5) (PFloat 0.9) = (None, snd example_node)"
    using example_node_eval unfolding example_node_def by simp
  have c: "channel (snd example_node) (PStr ''P1'') (PStr ''N1'') (PFloat 0.01)
     (PBool False) (PBool False) (PBool False) (PStr ''rectangle'') (PStr ''None'') (PInt 1)
     = (None, snd example_channel)"
    using example_channel_eval unfolding example_channel_def by simp
  have f: "fst example_port = None \<and> fst example_node = None \<and> fst example_channel = None"
    by (simp add: example_port_eval example_node_eval example_channel_eval)
  have e: "py_eq (PInt 0) (PBool False)" by simp
  from false_argument_skipped_and_stored [where param = "PInt 0" and declared = "''string''"
      and params = "[(PStr ''P1'', ''string'')]" and params' = "[(PInt (- 1), ''positive number'')]"
      and Fluid = example_Fluid and self = empty_schematic
      and name = "PStr ''P1''" and kind = "PStr ''input''" and min_pressure = "PInt 100"
      and min_flow_rate = "PBool False" and x = "PBool False" and y = "PBool False"
      and fluid_name = "PStr ''default''" and self' = "snd example_port"
      and selfn = "snd example_port" and namen = "PStr ''N1''" and xn = "PBool False"
      and yn = "PBool False" and kindn = "PStr ''node''" and c = "PFloat 0.4" and p = "PFloat 0.5"
      and qf = "PFloat 0.9" and selfn' = "snd example_node"
      and selfc = "snd example_node" and port_from = "PStr ''P1''" and port_to = "PStr ''N1''"
      and min_length = "PFloat 0.01" and min_width = "PBool False" and min_height = "PBool False"
      and min_resolution = "PBool False" and kindc = "PStr ''rectangle''" and phase = "PStr ''None''"
      and msr = "PInt 1" and selfc' = "snd example_channel"] p n c f e
  show ?thesis by auto
qed


section \<open>Kinds\<close>

lemma startswith_subset: "startswith t s \<Longrightarrow> set s \<subseteq> set t"
  by (induction t s rule: startswith.induct) auto

lemma str_in_subset: "str_in s t \<Longrightarrow> set s \<subseteq> set t"
proof (induction t)
  case Nil
  then show ?case by simp
next
  case (Cons a t)
  from Cons.prems have "startswith (a # t) s \<or> str_in s t" by simp
  then show ?case
  proof
    assume "startswith (a # t) s"
    then show ?thesis by (rule startswith_subset)
  next
    assume "str_in s t"
    with Cons.IH show ?thesis by auto
  qed
qed

lemma lower_piece_of_rectangle: "str_in k ''rectangle'' \<Longrightarrow> lower k = k"
proof -
  assume "str_in k ''rectangle''"
  then have "set k \<subseteq> set ''rectangle''" by (rule str_in_subset)
  moreover have "\<forall>c \<in> set ''rectangle''. lower_char c = c"
    by (simp add: lower_char_def)
  ultimately have "\<forall>c \<in> set k. lower_char c = c" by blast
  then show "lower k = k" unfolding lower_def by (simp add: map_idI)
qed

lemma port_kind_rejected:
  assumes "\<not> (\<exists>k. kind = PStr k \<and> ''translate_'' @ lower k \<in> set (translation_strats self))"
  shows "\<exists>e. port Fluid self name kind min_pressure min_flow_rate x y fluid_name = (Some e, self)"
proof (cases "port Fluid self name kind min_pressure min_flow_rate x y fluid_name")
  case (Pair r self')
  show ?thesis
  proof (cases r)
    case None
    with Pair port_success [of Fluid self name kind min_pressure min_flow_rate x y fluid_name self']
      assms
    show ?thesis by auto
  next
    case (Some e)
    with Pair port_failure [of Fluid self name kind min_pressure min_flow_rate x y fluid_name e self']
    show ?thesis by auto
  qed
qed

lemma node_kind_rejected:
  assumes "\<not> (\<exists>k. kind = PStr k \<and> ''translate_'' @ lower k \<in> set (translation_strats self))"
  shows "\<exists>e. node self name x y kind c p qf = (Some e, self)"
proof (cases "node self name x y kind c p qf")
  case (Pair r self')
  show ?thesis
  proof (cases r)
    case None
    with Pair node_success [of self name x y kind c p qf self'] assms
    show ?thesis by auto
  next
    case (Some e)
    with Pair node_failure [of self name x y kind c p qf e self']
    show ?thesis by auto
  qed
qed

lemma channel_kind_accepted:
  assumes H: "\<forall>s. ''translate_'' @ s \<in> set (translation_strats self) \<longrightarrow>
                 str_in s ''rectangle'' \<longrightarrow> s = ''rectangle''"
    and ok: "channel self port_from port_to min_length min_width min_height min_resolution kind
               phase msr = (None, self')"
  shows "kind = PStr ''rectangle'' \<and> ''translate_channel'' \<in> set (translation_strats self) \<and>
         (\<exists>u v a. port_from = PStr u \<and> port_to = PStr v \<and> edge_attrs (dg self') u v = Some a \<and>
            dict_get a ''kind'' = Some (Prim (PStr ''channel'')))"
proof -
  from channel_success [OF ok] obtain u v kind0 phase0 where
    eqs: "port_from = PStr u" "port_to = PStr v" "kind = PStr kind0"
    and piece: "str_in kind0 ''rectangle''"
    and rule: "''translate_'' @ lower (if kind0 = ''rectangle'' then ''channel'' else kind0)
                 \<in> set (translation_strats self)"
    and stored: "edge_attrs (dg self') u v =
             Some (channel_attributes u v (if kind0 = ''rectangle'' then ''channel'' else kind0)
                     min_length min_width min_height min_resolution phase0 msr)"
    by blast
  have k: "kind0 = ''rectangle''"
  proof (rule ccontr)
    assume ne: "kind0 \<noteq> ''rectangle''"
    with rule have "''translate_'' @ lower kind0 \<in> set (translation_strats self)" by simp
    with lower_piece_of_rectangle [OF piece]
    have "''translate_'' @ kind0 \<in> set (translation_strats self)" by simp
    with H piece have "kind0 = ''rectangle''" by blast
    with ne show False by contradiction
  qed
  have low: "lower ''channel'' = ''channel''"
    by (simp add: lower_def lower_char_def)
  from rule k low have "''translate_channel'' \<in> set (translation_strats self)" by simp
  moreover from stored k
  have "\<exists>a. edge_attrs (dg self') u v = Some a \<and> dict_get a ''kind'' = Some (Prim (PStr ''channel''))"
    by (simp add: channel_attributes_def dict_get_def)
  ultimately show ?thesis using eqs k by blast
qed

lemma channel_kind_rejected:
  assumes H: "\<forall>s. ''translate_'' @ s \<in> set (translation_strats self) \<longrightarrow>
                 str_in s ''rectangle'' \<longrightarrow> s = ''rectangle''"
    and ne: "kind \<noteq> PStr ''rectangle''"
  shows "\<exists>e. channel self port_from port_to min_length min_width min_height min_resolution kind
               phase msr = (Some e, self)"
proof (cases "channel self port_from port_to min_length min_width min_height min_resolution kind
               phase msr")
  case (Pair r self')
  show ?thesis
  proof (cases r)
    case None
    with Pair channel_kind_accepted [OF H, of port_from port_to min_length min_width min_height
        min_resolution kind phase msr self'] ne
    show ?thesis by auto
  next
    case (Some e)
    with Pair channel_failure [of self port_from port_to min_length min_width min_height
        min_resolution kind phase msr e self']
    show ?thesis by auto
  qed
qed

text \<open>
  Claim C5. A kind outside the supported set is rejected by the creation call itself: a
  port or node whose kind has no rule \<open>translate_<kind>\<close> (in lower case) in the module
  \<open>translate\<close> raises and stores nothing; a channel of any kind but \<open>'rectangle'\<close>
  raises and stores nothing, and an accepted channel has kind \<open>'rectangle'\<close>, stored as
  \<open>'channel'\<close>. The test \<open>kind not in valid_kinds\<close> lets every piece of the word
  \<open>rectangle\<close> through to the lookup of the rule, so the statement on channels holds for a
  module \<open>translate\<close> that defines no rule named after a proper piece of that word, as is
  the case for the rules the constructor's comment lists.
\<close>

theorem unsupported_kind_rejected_at_creation:
  assumes "\<forall>s. ''translate_'' @ s \<in> set (translation_strats self) \<longrightarrow>
               str_in s ''rectangle'' \<longrightarrow> s = ''rectangle''"
  shows
   "(\<not> (\<exists>k. kind = PStr k \<and> ''translate_'' @ lower k \<in> set (translation_strats self)) \<longrightarrow>
       (\<exists>e. port Fluid self name kind min_pressure min_flow_rate x y fluid_name = (Some e, self))) \<and>
    (\<not> (\<exists>k. kindn = PStr k \<and> ''translate_'' @ lower k \<in> set (translation_strats self)) \<longrightarrow>
       (\<exists>e. node self namen xn yn kindn c p qf = (Some e, self))) \<and>
    (kindc \<noteq> PStr ''rectangle'' \<longrightarrow>
       (\<exists>e. channel self port_from port_to min_length min_width min_height min_resolution kindc
               phase msr = (Some e, self))) \<and>
    (channel self port_from' port_to' min_length' min_width' min_height' min_resolution' kindc'
         phase' msr' = (None, self') \<longrightarrow>
       kindc' = PStr ''rectangle'' \<and> ''translate_channel'' \<in> set (translation_strats self) \<and>
       (\<exists>u v a. port_from' = PStr u \<and> port_to' = PStr v \<and> edge_attrs (dg self') u v = Some a \<and>
          dict_get a ''kind'' = Some (Prim (PStr ''channel''))))"
proof (intro conjI impI)
  assume "\<not> (\<exists>k. kind = PStr k \<and> ''translate_'' @ lower k \<in> set (translation_strats self))"
  then show "\<exists>e. port Fluid self name kind min_pressure min_flow_rate x y fluid_name = (Some e, self)"
    by (rule port_kind_rejected)
next
  assume "\<not> (\<exists>k. kindn = PStr k \<and> ''translate_'' @ lower k \<in> set (translation_strats self))"
  then show "\<exists>e. node self namen xn yn kindn c p qf = (Some e, self)"
    by (rule node_kind_rejected)
next
  assume "kindc \<noteq> PStr ''rectangle''"
  with assms show "\<exists>e. channel self port_from port_to min_length min_width min_height
      min_resolution kindc phase msr = (Some e, self)"
    by (rule channel_kind_rejected)
next
  assume ok: "channel self port_from' port_to' min_length' min_width' min_height' min_resolution'
      kindc' phase' msr' = (None, self')"
  from channel_kind_accepted [OF assms ok]
  show "kindc' = PStr ''rectangle''"
    and "''translate_channel'' \<in> set (translation_strats self)"
    and "\<exists>u v a. port_from' = PStr u \<and> port_to' = PStr v \<and> edge_attrs (dg self') u v = Some a \<and>
          dict_get a ''kind'' = Some (Prim (PStr ''channel''))"
    by blast+
qed

lemma example_strats_no_piece:
  "\<forall>s. ''translate_'' @ s \<in> set (translation_strats (snd example_node)) \<longrightarrow>
        str_in s ''rectangle'' \<longrightarrow> s = ''rectangle''"
  by (auto simp: example_node_eval empty_schematic_def Schematic_def example_strats_def)

theorem unsupported_kind_witness:
  "''translate_channel'' \<in> set (translation_strats (snd example_node)) \<and>
   ''translate_rect'' \<notin> set (translation_strats (snd example_node)) \<and>
   (\<exists>e. port example_Fluid (snd example_node) (PStr ''P2'') (PStr ''valve'') (PBool False)
           (PBool False) (PBool False) (PBool False) (PStr ''default'')
         = (Some e, snd example_node)) \<and>
   (\<exists>e. node (snd example_node) (PStr ''N2'') (PBool False) (PBool False) (PStr ''t-junction'')
           (PFloat 0.4) (PFloat 0.5) (PFloat 0.9)
         = (Some e, snd example_node)) \<and>
   (\<exists>e. channel (snd example_node) (PStr ''P1'') (PStr ''N1'') (PFloat 0.01) (PBool False)
           (PBool False) (PBool False) (PStr ''rect'') (PStr ''None'') (PInt 1)
         = (Some e, snd example_node)) \<and>
   fst example_channel = None \<and>
   (\<exists>a. edge_attrs (dg (snd example_channel)) ''P1'' ''N1'' = Some a \<and>
        dict_get a ''kind'' = Some (Prim (PStr ''channel'')))"
proof -
  have c: "channel (snd example_node) (PStr ''P1'') (PStr ''N1'') (PFloat 0.01)
     (PBool False) (PBool False) (PBool False) (PStr ''rectangle'') (PStr ''None'') (PInt 1)
     = (None, snd example_channel)"
    using example_channel_eval unfolding example_channel_def by simp
  have f: "fst example_channel = None"
    by (simp add: example_channel_eval)
  have k: "\<not> (\<exists>k. PStr ''valve'' = PStr k \<and>
               ''translate_'' @ lower k \<in> set (translation_strats (snd example_node)))"
       "\<not> (\<exists>k. PStr ''t-junction'' = PStr k \<and>
               ''translate_'' @ lower k \<in> set (translation_strats (snd example_node)))"
       "PStr ''rect'' \<noteq> PStr ''rectangle''"
    by (simp_all add: example_node_eval empty_schematic_def Schematic_def example_strats_def
          lower_def lower_char_def)
  from unsupported_kind_rejected_at_creation [OF example_strats_no_piece,
      where Fluid = example_Fluid and name = "PStr ''P2''" and kind = "PStr ''valve''"
      and min_pressure = "PBool False" and min_flow_rate = "PBool False" and x = "PBool False"
      and y = "PBool False" and fluid_name = "PStr ''default''"
      and namen = "PStr ''N2''" and xn = "PBool False" and yn = "PBool False"
      and kindn = "PStr ''t-junction''" and c = "PFloat 0.4" and p = "PFloat 0.5" and qf = "PFloat 0.9"
      and port_from = "PStr ''P1''" and port_to = "PStr ''N1''"
      and min_length = "PFloat 0.01" and min_width = "PBool False" and min_height = "PBool False"
      and min_resolution = "PBool False" and kindc = "PStr ''rect''" and phase = "PStr ''None''"
      and msr = "PInt 1"
      and port_from' = "PStr ''P1''" and port_to' = "PStr ''N1''"
      and min_length' = "PFloat 0.01" and min_width' = "PBool False" and min_height' = "PBool False"
      and min_resolution' = "PBool False" and kindc' = "PStr ''rectangle''"
      and phase' = "PStr ''None''" and msr' = "PInt 1" and self' = "snd example_channel"]
    c f k
  show ?thesis
    by (auto simp: example_node_eval empty_schematic_def Schematic_def example_strats_def)
qed

section \<open>A value of the wrong type that passes validation\<close>

text \<open>
  Claim C3 says that a value of the wrong primitive type for a parameter declared
  \<open>'positive number'\<close> raises a type error. The call
  \<open>channel('a', 'b', min_length='rectangle')\<close> on an empty schematic raises nothing and
  stores the string as the channel's \<open>min_length\<close>: in the dictionary that maps each
  argument to its declared kind the key \<open>'rectangle'\<close> is entered for \<open>min_length\<close> and
  then overwritten for \<open>kind\<close>, whose declared kind is \<open>'string'\<close>. Checked alone, the
  entry for \<open>min_length\<close> raises the type error.
\<close>

theorem wrong_type_min_length_accepted:
  "fst wrong_type_channel = None \<and>
   (\<exists>a. edge_attrs (dg (snd wrong_type_channel)) ''a'' ''b'' = Some a \<and>
        dict_get a ''min_length'' = Some (Prim (PStr ''rectangle''))) \<and>
   dict_display
     [(PStr ''a'', ''string''), (PStr ''b'', ''string''), (PStr ''rectangle'', ''positive number''),
      (PBool False, ''positive number''), (PBool False, ''positive number''),
      (PBool False, ''positive number''), (PStr ''rectangle'', ''string''),
      (PStr ''None'', ''string''), (PInt 1, ''positive number'')] =
     [(PStr ''a'', ''string''), (PStr ''b'', ''string''), (PStr ''rectangle'', ''string''),
      (PBool False, ''positive number''), (PStr ''None'', ''string''),
      (PInt 1, ''positive number'')] \<and>
   validate_params [(PStr ''rectangle'', ''positive number'')] = Some Param_must_be_int_or_float"
  by (simp add: wrong_type_channel_def eval_defs edge_attrs_def)


section \<open>Translation\<close>

lemma has_output_loop_KeyError:
  "(x, y, row) \<in> set g \<Longrightarrow> dict_get y ''kind'' = None \<Longrightarrow>
     has_output_loop g b = Inl (Key_error ''kind'')"
  by (induction g arbitrary: b) (auto split: option.splits)

lemma node_attrs_in_set: "node_attrs g n = Some a \<Longrightarrow> \<exists>row. (n, a, row) \<in> set g"
  by (auto simp: node_attrs_def dict_get_def split: option.splits dest: map_of_SomeD)

lemma node_attrs_names: "m \<in> set (map fst g) \<Longrightarrow> node_attrs g m \<noteq> None"
  by (auto simp: node_attrs_def dict_get_def map_of_eq_None_iff split: option.splits)

lemma input_loop_KeyError:
  assumes "node_attrs g n = Some a" and "dict_get a ''kind'' = None"
    and "n \<in> set names" and "\<forall>m \<in> set names. node_attrs g m \<noteq> None"
  shows "input_loop tr g names has_input es = (Inl (Key_error ''kind''), es)"
  using assms(3,4)
proof (induction names arbitrary: has_input)
  case Nil
  then show ?case by simp
next
  case (Cons m names)
  from assms(1) obtain row where "(n, a, row) \<in> set g"
    by (auto dest: node_attrs_in_set)
  then have ho: "has_output_loop g False = Inl (Key_error ''kind'')"
    using assms(2) by (rule has_output_loop_KeyError)
  from Cons.prems obtain b where b: "node_attrs g m = Some b" by auto
  show ?case
  proof (cases "m = n")
    case True
    with assms(1,2) show ?thesis by simp
  next
    case False
    with Cons.prems have "n \<in> set names" "\<forall>m \<in> set names. node_attrs g m \<noteq> None" by auto
    then have "\<And>hi. input_loop tr g names hi es = (Inl (Key_error ''kind''), es)"
      by (rule Cons.IH)
    with b ho show ?thesis by (simp split: option.splits)
  qed
qed

lemma translate_schematic_KeyError:
  assumes "node_attrs (dg self) n = Some a" and "dict_get a ''kind'' = None"
  shows "translate_schematic tr self = (Some (Key_error ''kind''), self)"
proof -
  from assms(1) have "n \<in> set (map fst (dg self))"
    by (auto simp: node_attrs_def dict_get_def split: option.splits dest: map_of_SomeD
          intro: rev_image_eqI)
  moreover have "\<forall>m \<in> set (map fst (dg self)). node_attrs (dg self) m \<noteq> None"
    using node_attrs_names by blast
  ultimately have "input_loop tr (dg self) (map fst (dg self)) False (exprs self)
      = (Inl (Key_error ''kind''), exprs self)"
    using assms by (intro input_loop_KeyError)
  then show ?thesis by (simp add: translate_schematic_def)
qed

lemma default_channel_params_valid:
  "validate_params (dict_display
     [(PStr u, ''string''), (PStr v, ''string''), (PBool False, ''positive number''),
      (PBool False, ''positive number''), (PBool False, ''positive number''),
      (PBool False, ''positive number''), (PStr ''rectangle'', ''string''),
      (PStr ''None'', ''string''), (PInt 1, ''positive number'')]) = None"
  by (simp add: dict_display_def lt_zero_def)

lemma default_channel_stored:
  assumes "\<not> in_edges (dg self) u v" and "''translate_channel'' \<in> set (translation_strats self)"
  shows "fst (channel self (PStr u) (PStr v) (PBool False) (PBool False) (PBool False)
                (PBool False) (PStr ''rectangle'') (PStr ''None'') (PInt 1)) = None"
  using assms
  by (simp add: channel_def Let_def default_channel_params_valid lower_def lower_char_def
        del: foldl.simps)

text \<open>
  Claim C10. \<open>channel\<close> does not check that its endpoints exist. For two names that are
  not nodes of the graph, and a module \<open>translate\<close> that has the channel rule, the call
  with the other arguments at their defaults succeeds; the graph then has both names as
  nodes with empty attribute dictionaries (no \<open>kind\<close>) and the edge between them, and
  \<open>solve\<close> on it raises \<open>KeyError\<close> for the key \<open>kind\<close>, whatever the translation rules
  and the solver are.
\<close>

theorem channel_creates_bare_endpoints:
  assumes "\<not> in_nodes (dg self) u" and "\<not> in_nodes (dg self) v"
    and "''translate_channel'' \<in> set (translation_strats self)"
  shows "\<exists>self'.
           channel self (PStr u) (PStr v) (PBool False) (PBool False) (PBool False) (PBool False)
             (PStr ''rectangle'') (PStr ''None'') (PInt 1) = (None, self') \<and>
           node_attrs (dg self') u = Some [] \<and> node_attrs (dg self') v = Some [] \<and>
           in_edges (dg self') u v \<and>
           solve tr self' = (Inl (Key_error ''kind''), self') \<and>
           exn_class (Key_error ''kind'') = KeyError"
proof -
  let ?r = "channel self (PStr u) (PStr v) (PBool False) (PBool False) (PBool False) (PBool False)
             (PStr ''rectangle'') (PStr ''None'') (PInt 1)"
  from assms(1) have ne: "\<not> in_edges (dg self) u v"
    by (auto dest: in_edges_in_nodes)
  from default_channel_stored [OF ne assms(3)] have ok: "?r = (None, snd ?r)"
    by (simp add: prod_eq_iff)
  from channel_success [OF ok] have
    e: "edge_attrs (dg (snd ?r)) u v \<noteq> None"
    and n: "\<forall>m. node_attrs (dg (snd ?r)) m =
                  (if (m = u \<or> m = v) \<and> \<not> in_nodes (dg self) m then Some []
                   else node_attrs (dg self) m)"
    by auto
  from n assms(1,2) have nu: "node_attrs (dg (snd ?r)) u = Some []"
    and nv: "node_attrs (dg (snd ?r)) v = Some []"
    by auto
  have "dict_get ([] :: attrs) ''kind'' = None" by (simp add: dict_get_def)
  with nu have "translate_schematic tr (snd ?r) = (Some (Key_error ''kind''), snd ?r)"
    by (rule translate_schematic_KeyError)
  then have "solve tr (snd ?r) = (Inl (Key_error ''kind''), snd ?r)"
    by (simp add: solve_def)
  with ok nu nv e show ?thesis
    by (auto simp: in_edges_edge_attrs)
qed

theorem channel_creates_bare_endpoints_witness:
  "\<not> in_nodes (dg empty_schematic) ''A'' \<and> \<not> in_nodes (dg empty_schematic) ''B'' \<and>
   ''translate_channel'' \<in> set (translation_strats empty_schematic) \<and>
   (\<exists>self'.
      channel empty_schematic (PStr ''A'') (PStr ''B'') (PBool False) (PBool False) (PBool False)
        (PBool False) (PStr ''rectangle'') (PStr ''None'') (PInt 1) = (None, self') \<and>
      node_attrs (dg self') ''A'' = Some [] \<and> node_attrs (dg self') ''B'' = Some [] \<and>
      in_edges (dg self') ''A'' ''B'' \<and>
      solve (example_rules None) self' = (Inl (Key_error ''kind''), self') \<and>
      exn_class (Key_error ''kind'') = KeyError)"
proof -
  have h: "\<not> in_nodes (dg empty_schematic) ''A''" "\<not> in_nodes (dg empty_schematic) ''B''"
    "''translate_channel'' \<in> set (translation_strats empty_schematic)"
    by (simp_all add: empty_schematic_def Schematic_def example_strats_def in_nodes_def dict_get_def)
  from channel_creates_bare_endpoints [OF h, of "example_rules None"] h
  show ?thesis by blast
qed


section \<open>An input port without a reachable output\<close>

lemma unreachable_output_eval:
  "unreachable_output = empty_schematic\<lparr>dg :=
     [(''a'', port_attributes ''a'' ''input'' (PBool False) (PBool False) (PBool False) (PBool False)
         \<lparr>min_density = Prim (PFloat 999), min_viscosity = Prim (PFloat 0.001),
          analyte_diffusivities = PDict [], analyte_initial_concentrations = PDict [],
          analyte_radii = PDict [], analyte_charges = PDict []\<rparr>,
        [(''n'', channel_attributes ''a'' ''n'' ''channel'' (PBool False) (PBool False)
            (PBool False) (PBool False) ''None'' (PInt 1))]),
      (''b'', port_attributes ''b'' ''output'' (PBool False) (PBool False) (PBool False) (PBool False)
         \<lparr>min_density = Prim (PFloat 999), min_viscosity = Prim (PFloat 0.001),
          analyte_diffusivities = PDict [], analyte_initial_concentrations = PDict [],
          analyte_radii = PDict [], analyte_charges = PDict []\<rparr>, []),
      (''n'', node_attributes ''n'' ''node'' (PFloat 0.4) (PFloat 0.5) (PFloat 0.9), [])]\<rparr>"
  by (simp add: unreachable_output_def eval_defs)

text \<open>
  Claim C1 says that translation fails for an input port from which no output port can be
  reached along channels. In the schematic \<open>unreachable_output\<close> the only channel leads
  from the input port \<open>a\<close> to the node \<open>n\<close>, and no output port is reachable from \<open>a\<close>;
  the loop that looks for an output finds the port \<open>b\<close>, \<open>translate_input\<close> is called
  for \<open>a\<close>, and with rules that do not raise the translation ends without an exception.
\<close>

theorem unreachable_output_is_translated:
  "\<not> output_reachable (dg unreachable_output) ''a'' \<and>
   has_output_loop (dg unreachable_output) False = Inr True \<and>
   translate_schematic (example_rules None) unreachable_output =
     (None, unreachable_output\<lparr>exprs := [''input_a'', ''chip_a'', ''chip_b'', ''chip_n'']\<rparr>)"
  by (simp add: unreachable_output_eval output_reachable_def successors_def node_attrs_def
        translate_schematic_def example_rules_def dict_get_def port_attributes_def
        node_attributes_def channel_attributes_def empty_schematic_def Schematic_def
        lower_def lower_char_def)

section \<open>The unsatisfiable outcome\<close>

text \<open>
  Claim C9. When the translation succeeds and the solver finds the formula unsatisfiable
  (it returns \<open>None\<close>), \<open>invoke_backend\<close> and \<open>solve\<close> return the string
  \<open>'No solution found'\<close>, and \<open>to_json\<close> raises \<open>AttributeError\<close> at
  \<open>output.items()\<close>, before the file is opened.
\<close>

theorem unsatisfiable_is_a_string:
  assumes "translate_schematic tr self = (None, self')"
    and "CheckSatisfiability tr (logical_and tr (exprs self')) 10 = None"
  shows "invoke_backend tr self' = Str ''No solution found'' \<and>
         solve tr self = (Inr (Str ''No solution found''), self') \<and>
         to_json tr self = (Inl No_attribute_items, self') \<and>
         exn_class No_attribute_items = AttributeError"
  using assms by (simp add: invoke_backend_def solve_def to_json_def)

theorem unsatisfiable_is_a_string_witness:
  "translate_schematic (example_rules None) unreachable_output =
     (None, unreachable_output\<lparr>exprs := [''input_a'', ''chip_a'', ''chip_b'', ''chip_n'']\<rparr>) \<and>
   solve (example_rules None) unreachable_output =
     (Inr (Str ''No solution found''),
      unreachable_output\<lparr>exprs := [''input_a'', ''chip_a'', ''chip_b'', ''chip_n'']\<rparr>) \<and>
   to_json (example_rules None) unreachable_output =
     (Inl No_attribute_items,
      unreachable_output\<lparr>exprs := [''input_a'', ''chip_a'', ''chip_b'', ''chip_n'']\<rparr>)"
proof -
  have t: "translate_schematic (example_rules None) unreachable_output =
     (None, unreachable_output\<lparr>exprs := [''input_a'', ''chip_a'', ''chip_b'', ''chip_n'']\<rparr>)"
    by (simp add: unreachable_output_eval node_attrs_def
        translate_schematic_def example_rules_def dict_get_def port_attributes_def
        node_attributes_def channel_attributes_def empty_schematic_def Schematic_def
        lower_def lower_char_def)
  have c: "CheckSatisfiability (example_rules None)
      (logical_and (example_rules None)
         (exprs (unreachable_output\<lparr>exprs := [''input_a'', ''chip_a'', ''chip_b'', ''chip_n'']\<rparr>)))
      10 = None"
    by (simp add: example_rules_def)
  from unsatisfiable_is_a_string [OF t c] t show ?thesis by simp
qed


section \<open>Solving twice\<close>

lemma input_loop_append:
  "input_loop tr g names has_input (es @ es0) =
     (case input_loop tr g names has_input es0 of (r, es') \<Rightarrow> (r, es @ es'))"
proof (induction names arbitrary: has_input es0)
  case Nil
  show ?case by simp
next
  case (Cons name names)
  have a: "\<And>vals. input_loop tr g names True (es @ es0 @ vals) =
      (case input_loop tr g names True (es0 @ vals) of (r, es') \<Rightarrow> (r, es @ es'))"
    by (rule Cons.IH)
  have c: "input_loop tr g names has_input (es @ es0) =
      (case input_loop tr g names has_input es0 of (r, es') \<Rightarrow> (r, es @ es'))"
    by (rule Cons.IH)
  show ?case
    by (simp add: a c split: option.splits sum.splits)
qed

lemma chip_loop_append:
  "chip_loop tr g d names (es @ es0) =
     (case chip_loop tr g d names es0 of (r, es') \<Rightarrow> (r, es @ es'))"
proof (induction names arbitrary: es0)
  case Nil
  show ?case by simp
next
  case (Cons name names)
  have a: "\<And>vals. chip_loop tr g d names (es @ es0 @ vals) =
      (case chip_loop tr g d names (es0 @ vals) of (r, es') \<Rightarrow> (r, es @ es'))"
    by (rule Cons.IH)
  show ?case
    by (simp add: a split: sum.splits)
qed

lemma translate_schematic_translation:
  "translate_schematic tr self =
     (fst (translation tr (dg self) (dim self)),
      self\<lparr>exprs := exprs self @ snd (translation tr (dg self) (dim self))\<rparr>)"
proof -
  obtain r es where il: "input_loop tr (dg self) (map fst (dg self)) False [] = (r, es)"
    by (cases "input_loop tr (dg self) (map fst (dg self)) False []")
  then have il': "input_loop tr (dg self) (map fst (dg self)) False (exprs self)
      = (r, exprs self @ es)"
    using input_loop_append [of tr "dg self" "map fst (dg self)" False "exprs self" "[]"] by simp
  obtain r' es' where cl: "chip_loop tr (dg self) (dim self) (map fst (dg self)) [] = (r', es')"
    by (cases "chip_loop tr (dg self) (dim self) (map fst (dg self)) []")
  then have cl2: "chip_loop tr (dg self) (dim self) (map fst (dg self)) es = (r', es @ es')"
    using chip_loop_append [of tr "dg self" "dim self" "map fst (dg self)" es "[]"] by simp
  then have cl1: "chip_loop tr (dg self) (dim self) (map fst (dg self)) (exprs self @ es)
      = (r', exprs self @ es @ es')"
    using chip_loop_append [of tr "dg self" "dim self" "map fst (dg self)" "exprs self" es] by simp
  show ?thesis
    by (cases r) (simp_all add: translate_schematic_def translation_def il il' cl1 cl2)
qed

lemma solve_translation:
  "solve tr self =
     (let t = translation tr (dg self) (dim self);
          self1 = self\<lparr>exprs := exprs self @ snd t\<rparr>
      in (case fst t of Some e \<Rightarrow> Inl e | None \<Rightarrow> Inr (invoke_backend tr self1), self1))"
  by (simp add: solve_def translate_schematic_translation Let_def split: option.splits)

lemma to_json_solve:
  assumes "dg self = dg other" and "fst (solve tr self) = fst (solve tr other)"
  shows "fst (to_json tr self) = fst (to_json tr other)"
proof -
  obtain r s1 where a: "solve tr self = (r, s1)" by (cases "solve tr self")
  with assms(2) obtain s2 where b: "solve tr other = (r, s2)" by (cases "solve tr other") auto
  show ?thesis
    by (simp add: to_json_def a b assms(1) split: sum.splits solve_result.splits)
qed

lemma to_json_state: "snd (to_json tr self) = snd (solve tr self)"
proof -
  obtain r s1 where a: "solve tr self = (r, s1)" by (cases "solve tr self")
  show ?thesis
    by (simp add: to_json_def a split: sum.splits solve_result.splits)
qed

lemma solve_twice_aux:
  assumes "\<forall>xs ys. set xs = set ys \<longrightarrow> logical_and tr xs = logical_and tr ys"
    and "dg self1 = dg self" and "dim self1 = dim self"
    and "exprs self1 = exprs self @ snd (translation tr (dg self) (dim self))"
  shows "fst (solve tr self1) = fst (solve tr self)"
proof -
  let ?t = "translation tr (dg self) (dim self)"
  have "set (exprs self1 @ snd ?t) = set (exprs self @ snd ?t)"
    using assms(4) by auto
  then have "logical_and tr (exprs self1 @ snd ?t) = logical_and tr (exprs self @ snd ?t)"
    by (rule assms(1) [rule_format])
  then have "invoke_backend tr (self1\<lparr>exprs := exprs self1 @ snd ?t\<rparr>) =
             invoke_backend tr (self\<lparr>exprs := exprs self @ snd ?t\<rparr>)"
    by (simp add: invoke_backend_def)
  then show ?thesis
    by (simp add: solve_translation Let_def assms(2,3) split: option.splits)
qed

text \<open>
  Claim C7. On a graph that is not modified, a second \<open>solve\<close> runs the translation
  again, which appends to \<open>self.exprs\<close> the same expressions as the first, so that the
  list holds the same set of constraints. When the conjunction that \<open>logical_and\<close>
  builds depends on the set of its operands only (dReal keeps a conjunction as the set of
  its operands), the second run passes the same formula to the solver, \<open>solve\<close> returns
  what it returned the first time, and \<open>to_json\<close> yields the same result, be it the
  intermediate representation or an exception.
\<close>

theorem solve_twice_same_result:
  assumes "\<forall>xs ys. set xs = set ys \<longrightarrow> logical_and tr xs = logical_and tr ys"
  shows "dg (snd (solve tr self)) = dg self \<and>
         exprs (snd (solve tr self)) = exprs self @ snd (translation tr (dg self) (dim self)) \<and>
         exprs (snd (solve tr (snd (solve tr self)))) =
           exprs (snd (solve tr self)) @ snd (translation tr (dg self) (dim self)) \<and>
         set (exprs (snd (solve tr (snd (solve tr self))))) = set (exprs (snd (solve tr self))) \<and>
         logical_and tr (exprs (snd (solve tr (snd (solve tr self))))) =
           logical_and tr (exprs (snd (solve tr self))) \<and>
         fst (solve tr (snd (solve tr self))) = fst (solve tr self) \<and>
         fst (to_json tr (snd (to_json tr self))) = fst (to_json tr self)"
proof -
  let ?t = "translation tr (dg self) (dim self)"
  let ?s1 = "snd (solve tr self)"
  have s1: "dg ?s1 = dg self" "dim ?s1 = dim self" "exprs ?s1 = exprs self @ snd ?t"
    by (simp_all add: solve_translation Let_def)
  have s2: "exprs (snd (solve tr ?s1)) = exprs ?s1 @ snd ?t"
    by (simp add: solve_translation [of tr ?s1] Let_def s1)
  have st: "set (exprs (snd (solve tr ?s1))) = set (exprs ?s1)"
    by (simp add: s2) (auto simp: s1)
  have la: "logical_and tr (exprs (snd (solve tr ?s1))) = logical_and tr (exprs ?s1)"
    by (rule assms [rule_format, OF st])
  have r: "fst (solve tr ?s1) = fst (solve tr self)"
    using assms s1 by (rule solve_twice_aux)
  have "fst (to_json tr (snd (to_json tr self))) = fst (to_json tr self)"
    unfolding to_json_state using s1(1) r by (rule to_json_solve)
  with s1 s2 st la r show ?thesis by simp
qed

theorem solve_twice_witness:
  "logical_and (example_rules None) [''chip_a'', ''input_a'', ''chip_a''] =
     logical_and (example_rules None) [''input_a'', ''chip_a''] \<and>
   fst (solve (example_rules None) unreachable_output) = Inr (Str ''No solution found'') \<and>
   (dg (snd (solve (example_rules None) unreachable_output)) = dg unreachable_output \<and>
    exprs (snd (solve (example_rules None) unreachable_output)) =
      exprs unreachable_output @
      snd (translation (example_rules None) (dg unreachable_output) (dim unreachable_output)) \<and>
    exprs (snd (solve (example_rules None) (snd (solve (example_rules None) unreachable_output)))) =
      exprs (snd (solve (example_rules None) unreachable_output)) @
      snd (translation (example_rules None) (dg unreachable_output) (dim unreachable_output)) \<and>
    set (exprs (snd (solve (example_rules None)
                       (snd (solve (example_rules None) unreachable_output))))) =
      set (exprs (snd (solve (example_rules None) unreachable_output))) \<and>
    logical_and (example_rules None)
       (exprs (snd (solve (example_rules None)
                      (snd (solve (example_rules None) unreachable_output))))) =
      logical_and (example_rules None)
       (exprs (snd (solve (example_rules None) unreachable_output))) \<and>
    fst (solve (example_rules None) (snd (solve (example_rules None) unreachable_output))) =
      fst (solve (example_rules None) unreachable_output) \<and>
    fst (to_json (example_rules None) (snd (to_json (example_rules None) unreachable_output))) =
      fst (to_json (example_rules None) unreachable_output))"
proof -
  have h: "\<forall>xs ys. set xs = set ys \<longrightarrow>
      logical_and (example_rules None) xs = logical_and (example_rules None) ys"
    by (simp add: example_rules_def)
  have t: "translate_schematic (example_rules None) unreachable_output =
     (None, unreachable_output\<lparr>exprs := [''input_a'', ''chip_a'', ''chip_b'', ''chip_n'']\<rparr>)"
    by (simp add: unreachable_output_eval node_attrs_def
        translate_schematic_def example_rules_def dict_get_def port_attributes_def
        node_attributes_def channel_attributes_def empty_schematic_def Schematic_def
        lower_def lower_char_def)
  have r: "fst (solve (example_rules None) unreachable_output) = Inr (Str ''No solution found'')"
    by (simp add: solve_def t invoke_backend_def) (simp add: example_rules_def)
  have l: "logical_and (example_rules None) [''chip_a'', ''input_a'', ''chip_a''] =
     logical_and (example_rules None) [''input_a'', ''chip_a'']"
    by (rule h [rule_format]) auto
  show ?thesis
    by (rule conjI [OF l conjI [OF r solve_twice_same_result [OF h]]])
qed


end
